theory Spec2Isabelle
  imports Complex_Main
begin

section \<open>Hydroponic expert system: the simulation service\<close>

text \<open>
  A shallow embedding of \<^verbatim>\<open>src/services/simulationService.ts\<close> and of the interfaces
  it reads (\<^verbatim>\<open>ParameterRange\<close>, \<^verbatim>\<open>CropOptimalParameters\<close>, \<^verbatim>\<open>GrowthTime\<close>,
  \<^verbatim>\<open>CropConfig\<close>, \<^verbatim>\<open>Parameters\<close>).

  Conventions of the embedding.
  \<^item> A TypeScript \<^verbatim>\<open>number\<close> is a \<^typ>\<open>real\<close>. Where the result of the code depends on
    the rounding of double arithmetic in a discrete way (the growth time, which is
    \<^verbatim>\<open>Math.round\<close> of a product; the combined advisory, which compares a difference with a
    threshold; the grams and the kilograms per square metre, which are rounded products and
    quotients), every operation and every decimal literal is rounded to the nearest double
    by \<open>fl\<close>. The yield evaluator stays over the exact reals: \<^verbatim>\<open>Math.pow\<close> has no exact
    specification, and no statement below depends on how its result is rounded.
  \<^item> A division whose divisor is zero has no real result in JavaScript (it is \<^verbatim>\<open>NaN\<close> or
    an infinity); \<open>js_div\<close> returns \<open>None\<close> there, and every function that divides by a
    computed divisor returns an option.
  \<^item> \<^verbatim>\<open>Math.round\<close> is \<open>\<lfloor>x + 1/2\<rfloor>\<close>, which is \<^const>\<open>round\<close>; \<^verbatim>\<open>Math.pow\<close> is only ever called on
    a base that is at least \<open>0.01\<close>, where it is \<^const>\<open>powr\<close>.
  \<^item> An optional field is an option; \<^verbatim>\<open>a ?? b\<close> is a case distinction on it.
  \<^item> The arrays \<^verbatim>\<open>issues\<close> and \<^verbatim>\<open>recs\<close> that the methods push to are passed in and returned.
    A message is kept as the values its template literal interpolates (the key stands for
    the display name \<^verbatim>\<open>getParameterName(key)\<close>); the rendering to text is not modelled.
  \<^item> The table \<^verbatim>\<open>CROP_PARAMETERS\<close> (\<^verbatim>\<open>constants/cropParameters\<close>) is a parameter of
    \<open>simulateGrowth\<close>: a finite map from crop identifiers to configurations.
  \<^item> Record fields keep the source's names, with a suffix where two interfaces share a name
    or the name is a constant of HOL.
\<close>

subsection \<open>Data model\<close>

datatype ParameterKey =
  Ph | Ec | AirTemperature | SolutionTemperature | LightIntensity
  | Co2Level | Humidity | WaterLevel | OxygenLevel

record ParameterRange =
  min_r :: real
  max_r :: real
  criticalMin :: "real option"
  criticalMax :: "real option"

record CropOptimalParameters =
  ph_r :: ParameterRange
  ec_r :: ParameterRange
  airTemperature_r :: ParameterRange
  solutionTemperature_r :: ParameterRange
  lightIntensity_r :: ParameterRange
  co2Level_r :: ParameterRange
  humidity_r :: ParameterRange
  waterLevel_r :: ParameterRange
  oxygenLevel_r :: ParameterRange

record GrowthTime =
  optimal_gt :: real
  max_gt :: real

record CropConfig =
  name :: string
  optimal :: CropOptimalParameters
  growthTime_cfg :: GrowthTime
  maxYield :: real

record Parameters =
  cropType :: string
  ph :: real
  ec :: real
  airTemperature :: real
  solutionTemperature :: real
  lightIntensity :: real
  co2Level :: real
  humidity :: real
  waterLevel :: real
  oxygenLevel :: real

text \<open>The text of an issue: the critical-range message of \<^verbatim>\<open>checkViability\<close> (key, value,
  effective critical minimum and maximum) and the yield message of \<^verbatim>\<open>calculateYield\<close> (key,
  value, optimal minimum and maximum, rounded impact in percent).\<close>

datatype issue =
  CriticalIssue ParameterKey real real real
  | YieldIssue ParameterKey real real real int

text \<open>The text of a recommendation: raise (key, minimum, maximum, value), lower (the same
  fields), and the fixed advisory on pH and EC.\<close>

datatype recommendation =
  Increase ParameterKey real real real
  | Decrease ParameterKey real real real
  | PhEcAdvisory

record SimulationResult =
  isViable :: bool
  yieldPercentage :: int
  expectedGrams :: int
  yieldPerSquareMeter :: real
  growthTime :: real
  issues :: "issue list"
  recommendations :: "recommendation list"

text \<open>\<open>TypeError\<close> is what the runtime raises on reading a property of \<^verbatim>\<open>undefined\<close>.
  \<open>NotANumber\<close> stands for a yield that is not a real number; no input reaches it (lemma
  \<open>calculateYield_total\<close> below). \<open>UnknownCropError\<close> is the typed lookup failure of the
  specification; no statement of the source raises it.\<close>

datatype error = TypeError | NotANumber | UnknownCropError

subsection \<open>Indexing by key\<close>

text \<open>\<^verbatim>\<open>params[key]\<close> and \<^verbatim>\<open>config.optimal[key]\<close>.\<close>

fun param :: "Parameters \<Rightarrow> ParameterKey \<Rightarrow> real" where
  "param p Ph = ph p"
| "param p Ec = ec p"
| "param p AirTemperature = airTemperature p"
| "param p SolutionTemperature = solutionTemperature p"
| "param p LightIntensity = lightIntensity p"
| "param p Co2Level = co2Level p"
| "param p Humidity = humidity p"
| "param p WaterLevel = waterLevel p"
| "param p OxygenLevel = oxygenLevel p"

fun limits_of :: "CropOptimalParameters \<Rightarrow> ParameterKey \<Rightarrow> ParameterRange" where
  "limits_of c Ph = ph_r c"
| "limits_of c Ec = ec_r c"
| "limits_of c AirTemperature = airTemperature_r c"
| "limits_of c SolutionTemperature = solutionTemperature_r c"
| "limits_of c LightIntensity = lightIntensity_r c"
| "limits_of c Co2Level = co2Level_r c"
| "limits_of c Humidity = humidity_r c"
| "limits_of c WaterLevel = waterLevel_r c"
| "limits_of c OxygenLevel = oxygenLevel_r c"

fun PARAM_WEIGHTS :: "ParameterKey \<Rightarrow> real" where
  "PARAM_WEIGHTS Ph = 12 / 10"
| "PARAM_WEIGHTS Ec = 15 / 10"
| "PARAM_WEIGHTS AirTemperature = 1"
| "PARAM_WEIGHTS SolutionTemperature = 1"
| "PARAM_WEIGHTS LightIntensity = 13 / 10"
| "PARAM_WEIGHTS Co2Level = 9 / 10"
| "PARAM_WEIGHTS Humidity = 6 / 10"
| "PARAM_WEIGHTS WaterLevel = 7 / 10"
| "PARAM_WEIGHTS OxygenLevel = 14 / 10"

definition parameterKeys :: "ParameterKey list" where
  "parameterKeys =
     [Ph, Ec, AirTemperature, SolutionTemperature,
      LightIntensity, Co2Level, Humidity, WaterLevel, OxygenLevel]"

text \<open>The effective critical bounds \<^verbatim>\<open>limits.criticalMin ?? limits.min\<close> and
  \<^verbatim>\<open>limits.criticalMax ?? limits.max\<close>.\<close>

definition cmin_of :: "ParameterRange \<Rightarrow> real" where
  "cmin_of limits = (case criticalMin limits of None \<Rightarrow> min_r limits | Some c \<Rightarrow> c)"

definition cmax_of :: "ParameterRange \<Rightarrow> real" where
  "cmax_of limits = (case criticalMax limits of None \<Rightarrow> max_r limits | Some c \<Rightarrow> c)"

subsection \<open>Arithmetic helpers\<close>

definition js_div :: "real \<Rightarrow> real \<Rightarrow> real option" where
  "js_div a b = (if b = 0 then None else Some (a / b))"

definition clamp :: "real \<Rightarrow> real \<Rightarrow> real \<Rightarrow> real" where
  "clamp v a b = max a (min b v)"

subsection \<open>Double arithmetic\<close>

text \<open>The binary exponent of a positive real: \<open>2 powi (bexp x) \<le> x < 2 powi (bexp x + 1)\<close>.\<close>

function bexp :: "real \<Rightarrow> int" where
  "bexp x = (if x \<le> 0 then 0
             else if 2 \<le> x then bexp (x / 2) + 1
             else if x < 1 then bexp (x * 2) - 1
             else 0)"
  by pat_completeness auto
termination
proof (relation "measure (\<lambda>x. nat \<bar>\<lfloor>log 2 x\<rfloor>\<bar>)")
  show "wf (measure (\<lambda>x. nat \<bar>\<lfloor>log 2 x\<rfloor>\<bar>))" by simp
next
  fix x :: real
  assume a: "\<not> x \<le> 0" "2 \<le> x"
  have "log 2 (x / 2) = log 2 x - 1"
    using a by (simp add: log_divide)
  moreover have "1 \<le> log 2 x"
    using a by (simp add: le_log_iff)
  ultimately show "(x / 2, x) \<in> measure (\<lambda>x. nat \<bar>\<lfloor>log 2 x\<rfloor>\<bar>)"
    by simp
next
  fix x :: real
  assume a: "\<not> x \<le> 0" "\<not> 2 \<le> x" "x < 1"
  define k where "k = \<lfloor>log 2 x\<rfloor>"
  have "log 2 (x * 2) = log 2 x + 1"
    using a by (simp add: log_mult)
  then have e: "\<lfloor>log 2 (x * 2)\<rfloor> = k + 1"
    by (simp add: k_def)
  have "log 2 x < 0"
    using a by simp
  then have k: "k < 0"
    unfolding k_def by (simp add: floor_less_iff)
  have "nat \<bar>k + 1\<bar> < nat \<bar>k\<bar>"
    using k by linarith
  then show "(x * 2, x) \<in> measure (\<lambda>x. nat \<bar>\<lfloor>log 2 x\<rfloor>\<bar>)"
    unfolding in_measure e k_def [symmetric] .
qed

declare bexp.simps [simp del]

text \<open>Rounding to the nearest integer, a tie going to the even one.\<close>

definition round_even :: "real \<Rightarrow> int" where
  "round_even y =
     (let f = \<lfloor>y\<rfloor>; d = y - of_int f
      in if d < 1 / 2 then f else if d > 1 / 2 then f + 1 else if even f then f else f + 1)"

text \<open>Rounding to the nearest double: a significand of 53 bits, a tie going to the even
  significand. The exponent is not bounded: overflow and subnormal numbers are not
  modelled.\<close>

definition fl :: "real \<Rightarrow> real" where
  "fl x = (if x = 0 then 0
           else let u = 2 powi (bexp \<bar>x\<bar> - 52) in of_int (round_even (x / u)) * u)"

text \<open>The four operations on doubles. An operand is rounded first, which changes nothing
  when it is a double already: a decimal such as \<open>5.6\<close> stands for the double that the code
  receives.\<close>

definition fadd :: "real \<Rightarrow> real \<Rightarrow> real" where
  "fadd x y = fl (fl x + fl y)"

definition fsub :: "real \<Rightarrow> real \<Rightarrow> real" where
  "fsub x y = fl (fl x - fl y)"

definition fmul :: "real \<Rightarrow> real \<Rightarrow> real" where
  "fmul x y = fl (fl x * fl y)"

definition fdiv :: "real \<Rightarrow> real \<Rightarrow> real" where
  "fdiv x y = fl (fl x / fl y)"

subsection \<open>computeLinearNormalized\<close>

definition computeLinearNormalized ::
  "real \<Rightarrow> real \<Rightarrow> real \<Rightarrow> real \<Rightarrow> real \<Rightarrow> real option" where
  "computeLinearNormalized v mn mx cmin cmax =
     (if v < mn then
        (if cmin \<ge> mn then Some 0
         else map_option (\<lambda>norm. clamp norm 0 1) (js_div (v - cmin) (mn - cmin)))
      else if v > mx then
        (if cmax \<le> mx then Some 0
         else map_option (\<lambda>norm. clamp norm 0 1) (js_div (cmax - v) (cmax - mx)))
      else Some 1)"

subsection \<open>checkViability\<close>

definition viability_step ::
  "Parameters \<Rightarrow> CropConfig \<Rightarrow> ParameterKey \<Rightarrow> bool \<times> issue list \<Rightarrow> bool \<times> issue list" where
  "viability_step params config key st =
     (let v = param params key;
          limits = limits_of (optimal config) key;
          cmin = cmin_of limits;
          cmax = cmax_of limits
      in if v < cmin \<or> v > cmax
         then (False, snd st @ [CriticalIssue key v cmin cmax])
         else st)"

definition checkViability ::
  "Parameters \<Rightarrow> CropConfig \<Rightarrow> issue list \<Rightarrow> bool \<times> issue list" where
  "checkViability params config iss = fold (viability_step params config) parameterKeys (True, iss)"

subsection \<open>calculateYield\<close>

text \<open>The body of the loop. The state is the triple of \<^verbatim>\<open>yieldMultiplier\<close>, \<^verbatim>\<open>deviations\<close>
  and \<^verbatim>\<open>issues\<close>.\<close>

type_synonym yield_state = "real \<times> (ParameterKey \<rightharpoonup> real) \<times> issue list"

definition yield_step ::
  "Parameters \<Rightarrow> CropConfig \<Rightarrow> ParameterKey \<Rightarrow> yield_state \<Rightarrow> yield_state option" where
  "yield_step params config key st =
     (case st of (yieldMultiplier, deviations, iss) \<Rightarrow>
      let v = param params key;
          limits = limits_of (optimal config) key
      in if v \<ge> min_r limits \<and> v \<le> max_r limits
         then Some (yieldMultiplier, deviations(key \<mapsto> 0), iss)
         else
           let cmin = cmin_of limits;
               cmax = cmax_of limits
           in (case computeLinearNormalized v (min_r limits) (max_r limits) cmin cmax of
                 None \<Rightarrow> None
               | Some lin \<Rightarrow>
                   let weight = PARAM_WEIGHTS key;
                       impact = (max (1 / 100) lin) powr (1 + weight)
                   in Some (yieldMultiplier * impact,
                            deviations(key \<mapsto> \<bar>1 - impact\<bar>),
                            if impact < 1
                            then iss @ [YieldIssue key v (min_r limits) (max_r limits)
                                          (round (impact * 100))]
                            else iss)))"

text \<open>The \<^verbatim>\<open>forEach\<close> over the nine keys, from \<^verbatim>\<open>yieldMultiplier = 1.0\<close> and an empty
  \<^verbatim>\<open>deviations\<close>.\<close>

definition yield_loop :: "Parameters \<Rightarrow> CropConfig \<Rightarrow> issue list \<Rightarrow> yield_state option" where
  "yield_loop params config iss =
     fold (\<lambda>key st. Option.bind st (yield_step params config key)) parameterKeys
       (Some (1, Map.empty, iss))"

text \<open>Step 4, the penalty on pH and EC: the value of \<^verbatim>\<open>yieldMultiplier\<close> after it.\<close>

definition interaction_penalty :: "yield_state \<Rightarrow> real" where
  "interaction_penalty st =
     (case st of (yieldMultiplier, deviations, iss) \<Rightarrow>
      let ecDev = (case deviations Ec of None \<Rightarrow> 0 | Some d \<Rightarrow> d);
          phDev = (case deviations Ph of None \<Rightarrow> 0 | Some d \<Rightarrow> d)
      in if ecDev > 2 / 10 \<and> phDev > 15 / 100
         then yieldMultiplier * (9 / 10) else yieldMultiplier)"

definition calculateYield ::
  "Parameters \<Rightarrow> CropConfig \<Rightarrow> issue list \<Rightarrow> (int \<times> issue list) option" where
  "calculateYield params config iss =
     (case yield_loop params config iss of
        None \<Rightarrow> None
      | Some st \<Rightarrow>
          let pct = max 0 (round (interaction_penalty st * 100))
          in Some (pct, snd (snd st)))"

subsection \<open>calculateGrowthTime\<close>

definition calculateGrowthTime :: "Parameters \<Rightarrow> CropConfig \<Rightarrow> real" where
  "calculateGrowthTime params config =
     (let opt = optimal_gt (growthTime_cfg config);
          mx = max_gt (growthTime_cfg config);
          m0 = 1;
          m1 = (if airTemperature params < min_r (airTemperature_r (optimal config))
                then fmul m0 (15 / 10) else m0);
          m2 = (if lightIntensity params < min_r (lightIntensity_r (optimal config))
                then fmul m1 (13 / 10) else m1);
          m3 = (if co2Level params < min_r (co2Level_r (optimal config))
                then fmul m2 (12 / 10) else m2)
      in min (of_int (round (fmul opt m3))) mx)"

subsection \<open>generateRecommendations\<close>

definition rec_step ::
  "Parameters \<Rightarrow> CropConfig \<Rightarrow> ParameterKey \<Rightarrow> recommendation list \<Rightarrow> recommendation list" where
  "rec_step params config key recs =
     (let v = param params key;
          limits = limits_of (optimal config) key
      in if v < min_r limits then recs @ [Increase key (min_r limits) (max_r limits) v]
         else if v > max_r limits then recs @ [Decrease key (min_r limits) (max_r limits) v]
         else recs)"

definition generateRecommendations ::
  "Parameters \<Rightarrow> CropConfig \<Rightarrow> recommendation list \<Rightarrow> recommendation list" where
  "generateRecommendations params config recs =
     (let recs1 = fold (rec_step params config) parameterKeys recs;
          e = ec params;
          p = ph params
      in if \<bar>fsub e (fdiv (fadd (min_r (ec_r (optimal config))) (max_r (ec_r (optimal config)))) 2)\<bar>
              > fl (8 / 10)
            \<and> \<bar>fsub p (fdiv (fadd (min_r (ph_r (optimal config))) (max_r (ph_r (optimal config)))) 2)\<bar>
              > fl (4 / 10)
         then recs1 @ [PhEcAdvisory]
         else recs1)"

subsection \<open>simulateGrowth\<close>

definition simulateGrowth ::
  "(string \<rightharpoonup> CropConfig) \<Rightarrow> Parameters \<Rightarrow> error + SimulationResult" where
  "simulateGrowth CROP_PARAMETERS params =
     (case CROP_PARAMETERS (cropType params) of
        None \<Rightarrow> Inl TypeError
      | Some cropParams \<Rightarrow>
          (case checkViability params cropParams [] of (viable, iss1) \<Rightarrow>
           (case calculateYield params cropParams iss1 of
             None \<Rightarrow> Inl NotANumber
           | Some (pct, iss2) \<Rightarrow>
               let gt = calculateGrowthTime params cropParams;
                   grams = round (fmul (if maxYield cropParams = 0 then 0 else maxYield cropParams)
                                    (fdiv (real_of_int pct) 100));
                   perSquareMeter =
                     fdiv (real_of_int (round (fmul (fdiv (real_of_int grams) 1000) 100))) 100;
                   recs = generateRecommendations params cropParams []
               in Inr \<lparr>isViable = viable, yieldPercentage = pct, expectedGrams = grams,
                        yieldPerSquareMeter = perSquareMeter, growthTime = gt,
                        issues = iss2, recommendations = recs\<rparr>)))"

subsection \<open>Notions used in the statements\<close>

text \<open>The factor that one iteration of the loop of \<^verbatim>\<open>calculateYield\<close> multiplies into
  \<^verbatim>\<open>yieldMultiplier\<close> for a key with the given limits and value: \<open>1\<close> when the iteration
  returns early, the value of \<^verbatim>\<open>impact\<close> otherwise (lemma \<open>yield_step_impact\<close> below).\<close>

definition impact_of :: "ParameterKey \<Rightarrow> ParameterRange \<Rightarrow> real \<Rightarrow> real option" where
  "impact_of key limits v =
     (if v \<ge> min_r limits \<and> v \<le> max_r limits then Some 1
      else map_option (\<lambda>lin. (max (1 / 100) lin) powr (1 + PARAM_WEIGHTS key))
             (computeLinearNormalized v (min_r limits) (max_r limits)
                (cmin_of limits) (cmax_of limits)))"

text \<open>The issue that one iteration of the loop of \<^verbatim>\<open>calculateYield\<close> pushes for a key
  whose factor is \<open>imp k\<close>: none when the factor is \<open>1\<close>.\<close>

definition yield_issue :: "Parameters \<Rightarrow> CropConfig \<Rightarrow> (ParameterKey \<Rightarrow> real) \<Rightarrow> ParameterKey \<Rightarrow> issue list" where
  "yield_issue p c imp k =
     (if imp k < 1
      then [YieldIssue k (param p k) (min_r (limits_of (optimal c) k))
              (max_r (limits_of (optimal c) k)) (round (imp k * 100))]
      else [])"

text \<open>The test of \<^verbatim>\<open>checkViability\<close> on one key, and the issue it pushes.\<close>

definition critical_violation :: "Parameters \<Rightarrow> CropConfig \<Rightarrow> ParameterKey \<Rightarrow> bool" where
  "critical_violation p c k \<longleftrightarrow>
     param p k < cmin_of (limits_of (optimal c) k) \<or> param p k > cmax_of (limits_of (optimal c) k)"

definition critical_issue :: "Parameters \<Rightarrow> CropConfig \<Rightarrow> ParameterKey \<Rightarrow> issue" where
  "critical_issue p c k =
     CriticalIssue k (param p k) (cmin_of (limits_of (optimal c) k)) (cmax_of (limits_of (optimal c) k))"

text \<open>The exact product of the three growth-time penalties: \<open>1.5\<close> for an air temperature
  below its optimal minimum, \<open>1.3\<close> for a light intensity below its optimal minimum, \<open>1.2\<close>
  for a CO2 level below its optimal minimum.\<close>

definition exact_multiplier :: "Parameters \<Rightarrow> CropConfig \<Rightarrow> real" where
  "exact_multiplier p c =
     (if airTemperature p < min_r (airTemperature_r (optimal c)) then 15 / 10 else 1)
     * (if lightIntensity p < min_r (lightIntensity_r (optimal c)) then 13 / 10 else 1)
     * (if co2Level p < min_r (co2Level_r (optimal c)) then 12 / 10 else 1)"

text \<open>The same product as the code accumulates it: from \<open>1\<close>, one double multiplication for
  each penalty that applies, in the order air temperature, light intensity, CO2 level.\<close>

definition growth_multiplier :: "Parameters \<Rightarrow> CropConfig \<Rightarrow> real" where
  "growth_multiplier p c =
     (let m1 = (if airTemperature p < min_r (airTemperature_r (optimal c))
                then fmul 1 (15 / 10) else 1);
          m2 = (if lightIntensity p < min_r (lightIntensity_r (optimal c))
                then fmul m1 (13 / 10) else m1)
      in if co2Level p < min_r (co2Level_r (optimal c)) then fmul m2 (12 / 10) else m2)"

text \<open>A real that is a double.\<close>

definition is_double :: "real \<Rightarrow> bool" where
  "is_double x \<longleftrightarrow> fl x = x"

text \<open>The condition of the combined advisory of \<^verbatim>\<open>generateRecommendations\<close>: in double
  arithmetic, the EC is more than \<open>0.8\<close> and the pH more than \<open>0.4\<close> away from the midpoint
  of its optimal interval.\<close>

definition ph_ec_advisory :: "Parameters \<Rightarrow> CropConfig \<Rightarrow> bool" where
  "ph_ec_advisory p c \<longleftrightarrow>
     \<bar>fsub (ec p) (fdiv (fadd (min_r (ec_r (optimal c))) (max_r (ec_r (optimal c)))) 2)\<bar>
       > fl (8 / 10)
     \<and> \<bar>fsub (ph p) (fdiv (fadd (min_r (ph_r (optimal c))) (max_r (ph_r (optimal c)))) 2)\<bar>
       > fl (4 / 10)"

text \<open>The invariant of a \<^verbatim>\<open>ParameterRange\<close>: \<open>min \<le> max\<close>, and a critical bound that is
  present lies outside the optimal interval.\<close>

definition range_ok :: "ParameterRange \<Rightarrow> bool" where
  "range_ok r \<longleftrightarrow>
     min_r r \<le> max_r r
     \<and> (case criticalMin r of None \<Rightarrow> True | Some c \<Rightarrow> c \<le> min_r r)
     \<and> (case criticalMax r of None \<Rightarrow> True | Some c \<Rightarrow> max_r r \<le> c)"

text \<open>The invariants of a crop profile: every range is well formed, the optimal growth time
  is at most the maximal one, the maximal yield is not negative.\<close>

definition profile_ok :: "CropConfig \<Rightarrow> bool" where
  "profile_ok c \<longleftrightarrow>
     list_all (\<lambda>k. range_ok (limits_of (optimal c) k)) parameterKeys
     \<and> optimal_gt (growthTime_cfg c) \<le> max_gt (growthTime_cfg c)
     \<and> 0 \<le> maxYield c"

text \<open>Every one of the nine readings lies in its optimal interval.\<close>

definition all_optimal :: "Parameters \<Rightarrow> CropConfig \<Rightarrow> bool" where
  "all_optimal p c \<longleftrightarrow>
     list_all (\<lambda>k. min_r (limits_of (optimal c) k) \<le> param p k
                   \<and> param p k \<le> max_r (limits_of (optimal c) k)) parameterKeys"

subsection \<open>Sample inputs\<close>

text \<open>The readings that the constructor of \<^verbatim>\<open>GrowthModel\<close> sets.\<close>

definition defaultParameters :: Parameters where
  "defaultParameters =
     \<lparr>cropType = ''lettuce'', ph = 6, ec = 15 / 10, airTemperature = 20,
      solutionTemperature = 20, lightIntensity = 12000, co2Level = 800, humidity = 60,
      waterLevel = 100, oxygenLevel = 6\<rparr>"

text \<open>A profile on which the statements are instantiated. Its pH range is the one of the
  specification's examples: optimal \<open>[5.5, 6.5]\<close>, critical \<open>[4, 8]\<close>. The water level declares
  no critical maximum. The default readings are all optimal on it.\<close>

definition sampleProfile :: CropConfig where
  "sampleProfile =
     \<lparr>name = ''sample'',
      optimal =
        \<lparr>ph_r = \<lparr>min_r = 55 / 10, max_r = 65 / 10, criticalMin = Some 4, criticalMax = Some 8\<rparr>,
         ec_r = \<lparr>min_r = 1, max_r = 3, criticalMin = Some (5 / 10), criticalMax = Some 4\<rparr>,
         airTemperature_r =
           \<lparr>min_r = 18, max_r = 24, criticalMin = Some 10, criticalMax = Some 30\<rparr>,
         solutionTemperature_r =
           \<lparr>min_r = 18, max_r = 22, criticalMin = Some 15, criticalMax = Some 28\<rparr>,
         lightIntensity_r =
           \<lparr>min_r = 10000, max_r = 20000, criticalMin = Some 8000, criticalMax = Some 35000\<rparr>,
         co2Level_r =
           \<lparr>min_r = 600, max_r = 1200, criticalMin = Some 400, criticalMax = Some 2000\<rparr>,
         humidity_r = \<lparr>min_r = 50, max_r = 70, criticalMin = Some 40, criticalMax = Some 90\<rparr>,
         waterLevel_r = \<lparr>min_r = 80, max_r = 100, criticalMin = Some 40, criticalMax = None\<rparr>,
         oxygenLevel_r = \<lparr>min_r = 5, max_r = 8, criticalMin = Some 3, criticalMax = Some 11\<rparr>\<rparr>,
      growthTime_cfg = \<lparr>optimal_gt = 30, max_gt = 45\<rparr>,
      maxYield = 200\<rparr>"

text \<open>A table that holds the sample profile under the identifier \<open>lettuce\<close> and nothing else.\<close>

definition sampleRegistry :: "string \<rightharpoonup> CropConfig" where
  "sampleRegistry = [''lettuce'' \<mapsto> sampleProfile]"

text \<open>The default readings with a pH of \<open>3.5\<close>, below the critical minimum \<open>4\<close> of the sample
  profile.\<close>

definition nonViableParameters :: Parameters where
  "nonViableParameters = defaultParameters\<lparr>ph := 35 / 10\<rparr>"

text \<open>The default readings with the pH at its critical minimum \<open>4\<close>: every other reading is
  in its optimal interval, and no reading violates a critical bound.\<close>

definition boundaryParameters :: Parameters where
  "boundaryParameters = defaultParameters\<lparr>ph := 4\<rparr>"

text \<open>The default readings with the pH and the EC at their critical minima on the sample
  profile.\<close>

definition bothLowParameters :: Parameters where
  "bothLowParameters = defaultParameters\<lparr>ph := 4, ec := 5 / 10\<rparr>"

text \<open>The default readings with the pH and the EC at the lower ends of their optimal
  intervals on the sample profile.\<close>

definition lowEndParameters :: Parameters where
  "lowEndParameters = defaultParameters\<lparr>ph := 55 / 10, ec := 1\<rparr>"

text \<open>The sample profile with a maximal growth time of forty and a half days, and the
  default readings with an air temperature of \<open>15\<close>, below the optimal minimum \<open>18\<close>.\<close>

definition fractionalMaxProfile :: CropConfig where
  "fractionalMaxProfile = sampleProfile\<lparr>growthTime_cfg := \<lparr>optimal_gt = 30, max_gt = 81 / 2\<rparr>\<rparr>"

definition coldParameters :: Parameters where
  "coldParameters = defaultParameters\<lparr>airTemperature := 15\<rparr>"

text \<open>The default readings for a crop identifier that the table does not hold.\<close>

definition unknownCropParameters :: Parameters where
  "unknownCropParameters = defaultParameters\<lparr>cropType := ''tomato''\<rparr>"

text \<open>The sample profile with an optimal growth time of twenty-eight and a half days, and a
  table that holds it.\<close>

definition fractionalOptimalProfile :: CropConfig where
  "fractionalOptimalProfile =
     sampleProfile\<lparr>growthTime_cfg := \<lparr>optimal_gt = 57 / 2, max_gt = 45\<rparr>\<rparr>"

definition fractionalOptimalRegistry :: "string \<rightharpoonup> CropConfig" where
  "fractionalOptimalRegistry = [''lettuce'' \<mapsto> fractionalOptimalProfile]"

text \<open>The sample profile with an optimal growth time of seven and a half days, and the
  default readings with an air temperature of \<open>15\<close> and a CO2 level of \<open>500\<close>, both below
  their optimal minima.\<close>

definition shortCycleProfile :: CropConfig where
  "shortCycleProfile = sampleProfile\<lparr>growthTime_cfg := \<lparr>optimal_gt = 15 / 2, max_gt = 45\<rparr>\<rparr>"

definition coldLowCo2Parameters :: Parameters where
  "coldLowCo2Parameters = defaultParameters\<lparr>airTemperature := 15, co2Level := 500\<rparr>"

text \<open>The default readings with a water level of \<open>101\<close>, above the optimal maximum \<open>100\<close> of
  the sample profile, which declares no critical maximum for the water level.\<close>

definition overfilledParameters :: Parameters where
  "overfilledParameters = defaultParameters\<lparr>waterLevel := 101\<rparr>"

text \<open>The sample profile with a humidity range that declares no critical bound, and the
  default readings with a humidity of \<open>49\<close>, below its optimal minimum \<open>50\<close>, and of \<open>70\<close>, its
  optimal maximum.\<close>

definition noCriticalProfile :: CropConfig where
  "noCriticalProfile =
     sampleProfile\<lparr>optimal := (optimal sampleProfile)
       \<lparr>humidity_r := \<lparr>min_r = 50, max_r = 70, criticalMin = None, criticalMax = None\<rparr>\<rparr>\<rparr>"

definition dryParameters :: Parameters where
  "dryParameters = defaultParameters\<lparr>humidity := 49\<rparr>"

definition humidParameters :: Parameters where
  "humidParameters = defaultParameters\<lparr>humidity := 70\<rparr>"

text \<open>The default readings with an EC of \<open>0.905\<close>, between the critical and the optimal minimum
  of the sample profile, alone and with a pH of \<open>4.885735\<close>, between its critical and its
  optimal minimum. The normalised distances are \<open>0.81\<close> for the EC and \<open>0.59049\<close> for the pH.\<close>

definition bothDeviateParameters :: Parameters where
  "bothDeviateParameters = defaultParameters\<lparr>ph := 4885735 / 1000000, ec := 905 / 1000\<rparr>"

definition ecDeviatesParameters :: Parameters where
  "ecDeviatesParameters = defaultParameters\<lparr>ec := 905 / 1000\<rparr>"

text \<open>The sample profile with a maximal yield of \<open>145\<close> grams, and a table that holds it.\<close>

definition lightHeadProfile :: CropConfig where
  "lightHeadProfile = sampleProfile\<lparr>maxYield := 145\<rparr>"

definition lightHeadRegistry :: "string \<rightharpoonup> CropConfig" where
  "lightHeadRegistry = [''lettuce'' \<mapsto> lightHeadProfile]"

section \<open>Properties\<close>

subsection \<open>Rounding to a double\<close>

lemma bexp_bounds:
  "0 < x \<Longrightarrow> 2 powi (bexp x) \<le> x \<and> x < 2 powi (bexp x + 1)"
proof (induction x rule: bexp.induct)
  case (1 x)
  show ?case
  proof (cases "2 \<le> x")
    case True
    then have b: "bexp x = bexp (x / 2) + 1"
      using "1.prems" by (subst bexp.simps) simp
    have ih: "2 powi (bexp (x / 2)) \<le> x / 2 \<and> x / 2 < 2 powi (bexp (x / 2) + 1)"
      using "1.IH"(1) "1.prems" True by simp
    have p: "(2::real) powi (bexp (x / 2) + 1 + 1) = 2 powi (bexp (x / 2) + 1) * 2"
      "(2::real) powi (bexp (x / 2) + 1) = 2 powi (bexp (x / 2)) * 2"
      using power_int_add_1 [of "2::real" "bexp (x / 2) + 1"]
        power_int_add_1 [of "2::real" "bexp (x / 2)"] by simp_all
    show ?thesis
      unfolding b using ih p by linarith
  next
    case False
    show ?thesis
    proof (cases "x < 1")
      case True
      then have b: "bexp x = bexp (x * 2) - 1"
        using "1.prems" False by (subst bexp.simps) simp
      have ih: "2 powi (bexp (x * 2)) \<le> x * 2 \<and> x * 2 < 2 powi (bexp (x * 2) + 1)"
        using "1.IH"(2) "1.prems" False True by simp
      have p: "(2::real) powi (bexp (x * 2) + 1) = 2 powi (bexp (x * 2)) * 2"
        "(2::real) powi (bexp (x * 2)) = 2 powi (bexp (x * 2) - 1) * 2"
        using power_int_add_1 [of "2::real" "bexp (x * 2)"]
          power_int_add_1 [of "2::real" "bexp (x * 2) - 1"] by simp_all
      have s: "bexp (x * 2) - 1 + 1 = bexp (x * 2)" by simp
      show ?thesis
        unfolding b s using ih p by linarith
    next
      case nl: False
      then have "bexp x = 0"
        using "1.prems" False by (subst bexp.simps) simp
      then show ?thesis
        using False nl by simp
    qed
  qed
qed

lemma bexp_unique:
  assumes "0 < x" "2 powi e \<le> x" "x < 2 powi (e + 1)"
  shows "bexp x = e"
proof (rule ccontr)
  assume ne: "bexp x \<noteq> e"
  note b = bexp_bounds [OF assms(1)]
  show False
  proof (cases "bexp x < e")
    case True
    then have "(2::real) powi (bexp x + 1) \<le> 2 powi e"
      by (intro power_int_increasing) simp_all
    with b assms(2) show False by linarith
  next
    case False
    with ne have "e + 1 \<le> bexp x" by simp
    then have "(2::real) powi (e + 1) \<le> 2 powi (bexp x)"
      by (intro power_int_increasing) simp_all
    with b assms(3) show False by linarith
  qed
qed

lemma fl_0: "fl 0 = 0"
  by (simp add: fl_def)

lemma fl_eval:
  assumes "2 powi e \<le> \<bar>x\<bar>" "\<bar>x\<bar> < 2 powi (e + 1)"
  shows "fl x = of_int (round_even (x / 2 powi (e - 52))) * 2 powi (e - 52)"
proof -
  have "0 < (2::real) powi e" by simp
  with assms(1) have pos: "0 < \<bar>x\<bar>" by linarith
  then have "bexp \<bar>x\<bar> = e"
    using assms by (intro bexp_unique)
  moreover have "x \<noteq> 0" using pos by simp
  ultimately show ?thesis
    by (simp add: fl_def Let_def)
qed

lemma round_even_of_int: "round_even (of_int n) = n"
  by (simp add: round_even_def)

lemma round_even_ge_floor: "\<lfloor>y\<rfloor> \<le> round_even y"
  by (simp add: round_even_def Let_def)

lemma round_even_ge:
  assumes "of_int n \<le> y"
  shows "n \<le> round_even y"
proof -
  have "n \<le> \<lfloor>y\<rfloor>" using assms by (simp add: le_floor_iff)
  then show ?thesis using round_even_ge_floor [of y] by linarith
qed

lemma round_even_error: "\<bar>of_int (round_even y) - y\<bar> \<le> 1 / 2"
  unfolding round_even_def Let_def by (auto; linarith)


lemma fl_ge_1:
  assumes "1 \<le> x"
  shows "1 \<le> fl x"
proof -
  have pos: "0 < x" using assms by simp
  define b where "b = bexp x"
  have bb: "2 powi b \<le> x" "x < 2 powi (b + 1)"
    using bexp_bounds [OF pos] by (simp_all add: b_def)
  have b0: "0 \<le> b"
  proof (rule ccontr)
    assume "\<not> 0 \<le> b"
    then have "b + 1 \<le> 0" by simp
    then have "(2::real) powi (b + 1) \<le> 2 powi 0"
      by (intro power_int_increasing) simp_all
    with bb(2) assms show False by simp
  qed
  define u :: real where "u = 2 powi (b - 52)"
  have u: "0 < u" by (simp add: u_def)
  have "2 powi b = 2 powi 52 * u"
    unfolding u_def using power_int_add [of "2::real" 52 "b - 52"] by simp
  then have "2 powi 52 * u \<le> x" using bb(1) by simp
  then have "of_int (2 ^ 52) \<le> x / u"
    using u by (simp add: pos_le_divide_eq)
  then have "2 ^ 52 \<le> round_even (x / u)"
    by (rule round_even_ge)
  then have "(2::real) ^ 52 \<le> of_int (round_even (x / u))"
    by (metis of_int_le_iff of_int_numeral of_int_power)
  then have "2 ^ 52 * u \<le> of_int (round_even (x / u)) * u"
    using u by (intro mult_right_mono) simp_all
  moreover have "2 ^ 52 * u = 2 powi b"
    unfolding u_def using power_int_add [of "2::real" 52 "b - 52"] by simp
  moreover have "(1::real) \<le> 2 powi b"
    using b0 by simp
  moreover have "fl x = of_int (round_even (x / u)) * u"
    using pos by (simp add: fl_def Let_def b_def u_def)
  ultimately show ?thesis by linarith
qed

lemma fl_dyadic:
  assumes "\<bar>n\<bar> < 2 ^ 53"
  shows "fl (of_int n / 2 ^ k) = of_int n / 2 ^ k"
proof (cases "n = 0")
  case True
  then show ?thesis by (simp add: fl_0)
next
  case False
  define x :: real where "x = of_int n / 2 ^ k"
  have xn: "x \<noteq> 0" using False by (simp add: x_def)
  then have pos: "0 < \<bar>x\<bar>" by simp
  define b where "b = bexp \<bar>x\<bar>"
  have bb: "2 powi b \<le> \<bar>x\<bar>"
    using bexp_bounds [OF pos] by (simp add: b_def)
  have ax: "\<bar>x\<bar> = of_int \<bar>n\<bar> / 2 ^ k"
    by (simp add: x_def)
  have "of_int \<bar>n\<bar> < (2::real) ^ 53"
    using assms by (metis of_int_less_iff of_int_numeral of_int_power)
  then have "\<bar>x\<bar> < 2 ^ 53 / 2 ^ k"
    unfolding ax by (simp add: divide_strict_right_mono)
  also have "(2::real) ^ 53 / 2 ^ k = 2 powi (53 - int k)"
    using power_int_diff [of "2::real" 53 "int k"] by simp
  finally have "2 powi b < (2::real) powi (53 - int k)"
    using bb by linarith
  then have "b < 53 - int k"
    by (metis linorder_not_le one_le_numeral power_int_increasing)
  then have m0: "0 \<le> 52 - b - int k" by simp
  define m where "m = nat (52 - b - int k)"
  have m: "int m = 52 - b - int k" using m0 by (simp add: m_def)
  have "(2::real) powi (int m) = 2 powi (- int k - (b - 52))"
    by (simp add: m algebra_simps)
  also have "\<dots> = 2 powi (- int k) / 2 powi (b - 52)"
    by (rule power_int_diff) simp
  also have "(2::real) powi (- int k) = 1 / 2 ^ k"
    by (simp add: power_int_minus divide_simps)
  finally have "x / 2 powi (b - 52) = of_int n * 2 ^ m"
    by (simp add: x_def)
  then have q: "x / 2 powi (b - 52) = of_int (n * 2 ^ m)"
    by simp
  have "fl x = of_int (round_even (x / 2 powi (b - 52))) * 2 powi (b - 52)"
    using xn by (simp add: fl_def Let_def b_def)
  also have "\<dots> = x / 2 powi (b - 52) * 2 powi (b - 52)"
    unfolding q round_even_of_int ..
  also have "\<dots> = x" by simp
  finally show ?thesis by (simp add: x_def)
qed

lemma fl_int:
  assumes "\<bar>n\<bar> < 2 ^ 53"
  shows "fl (of_int n) = of_int n"
  using fl_dyadic [OF assms, of 0] by simp

lemma fl_1: "fl 1 = 1"
  using fl_int [of 1] by simp

lemma fl_numeral:
  assumes "numeral w < (2::int) ^ 53"
  shows "fl (numeral w) = numeral w"
  using fl_int [of "numeral w"] assms by simp

lemma fl_error: "\<bar>fl x - x\<bar> \<le> \<bar>x\<bar> / 2 ^ 53"
proof (cases "x = 0")
  case True
  then show ?thesis by (simp add: fl_0)
next
  case False
  then have pos: "0 < \<bar>x\<bar>" by simp
  define b where "b = bexp \<bar>x\<bar>"
  define u :: real where "u = 2 powi (b - 52)"
  have u: "0 < u" by (simp add: u_def)
  have "2 powi b \<le> \<bar>x\<bar>"
    using bexp_bounds [OF pos] by (simp add: b_def)
  moreover have "2 powi b = 2 ^ 52 * u"
    unfolding u_def using power_int_add [of "2::real" 52 "b - 52"] by simp
  ultimately have ux: "u \<le> \<bar>x\<bar> / 2 ^ 52"
    by (simp add: pos_le_divide_eq mult.commute)
  have f: "fl x = of_int (round_even (x / u)) * u"
    using False by (simp add: fl_def Let_def b_def u_def)
  have "fl x - x = (of_int (round_even (x / u)) - x / u) * u"
    using u by (simp add: f algebra_simps)
  then have "\<bar>fl x - x\<bar> = \<bar>of_int (round_even (x / u)) - x / u\<bar> * u"
    using u by (simp add: abs_mult)
  also have "\<dots> \<le> 1 / 2 * u"
    using round_even_error [of "x / u"] u by (intro mult_right_mono) simp_all
  also have "\<dots> \<le> 1 / 2 * (\<bar>x\<bar> / 2 ^ 52)"
    using ux by simp
  finally show ?thesis by simp
qed

lemma fmul_ge_1:
  assumes "1 \<le> x" "1 \<le> y"
  shows "1 \<le> fmul x y"
proof -
  have "1 \<le> fl x" "1 \<le> fl y"
    using assms by (simp_all add: fl_ge_1)
  then have "1 * 1 \<le> fl x * fl y"
    by (intro mult_mono) simp_all
  then show ?thesis
    unfolding fmul_def by (intro fl_ge_1) simp
qed

lemma fmul_0_right: "fmul x 0 = 0"
  by (simp add: fmul_def fl_0)

lemma fmul_0_left: "fmul 0 y = 0"
  by (simp add: fmul_def fl_0)

lemma fdiv_0_left: "fdiv 0 y = 0"
  by (simp add: fdiv_def fl_0)

lemma fmul_1_right: "is_double x \<Longrightarrow> fmul x 1 = x"
  by (simp add: fmul_def is_double_def fl_1)

lemma is_double_dyadic: "\<bar>n\<bar> < 2 ^ 53 \<Longrightarrow> is_double (of_int n / 2 ^ k)"
  unfolding is_double_def by (rule fl_dyadic)

lemma is_double_numeral: "numeral w < (2::int) ^ 53 \<Longrightarrow> is_double (numeral w)"
  unfolding is_double_def by (rule fl_numeral)

text \<open>The doubles of the literals \<open>1.5\<close>, \<open>1.3\<close>, \<open>1.2\<close>, \<open>0.8\<close> and \<open>0.4\<close> (the fractions are
  written in lowest terms, as the simplifier writes them).\<close>

lemma fl_3_2: "fl (3 / 2) = 3 / 2"
  using fl_dyadic [of 3 1] by simp

lemma fl_13: "fl (13 / 10) = 5854679515581645 / 4503599627370496"
  by (subst fl_eval [where e = 0]) (simp_all add: round_even_def)

lemma fl_12: "fl (6 / 5) = 5404319552844595 / 4503599627370496"
  by (subst fl_eval [where e = 0]) (simp_all add: round_even_def)

lemma fl_08: "fl (4 / 5) = 3602879701896397 / 4503599627370496"
  by (subst fl_eval [where e = "-1"]) (simp_all add: round_even_def)

lemma fl_04: "fl (2 / 5) = 3602879701896397 / 9007199254740992"
  by (subst fl_eval [where e = "-2"]) (simp_all add: round_even_def)

lemma fl_d13: "fl (5854679515581645 / 4503599627370496) = 5854679515581645 / 4503599627370496"
  using fl_dyadic [of 5854679515581645 52] by simp

lemma fl_d12: "fl (5404319552844595 / 4503599627370496) = 5404319552844595 / 4503599627370496"
  using fl_dyadic [of 5404319552844595 52] by simp

lemma fl_M195: "fl (2195504818343117 / 1125899906842624) = 2195504818343117 / 1125899906842624"
  using fl_dyadic [of 2195504818343117 50] by simp

text \<open>The seven products that the multiplier of the growth time can be.\<close>

lemma fmul_1_15: "fmul 1 (3 / 2) = 3 / 2"
  by (simp add: fmul_def fl_1 fl_3_2)

lemma fmul_1_13: "fmul 1 (13 / 10) = 5854679515581645 / 4503599627370496"
  by (simp add: fmul_def fl_1 fl_13 fl_d13)

lemma fmul_1_12: "fmul 1 (6 / 5) = 5404319552844595 / 4503599627370496"
  by (simp add: fmul_def fl_1 fl_12 fl_d12)

lemma fmul_15_13: "fmul (3 / 2) (13 / 10) = 2195504818343117 / 1125899906842624"
  unfolding fmul_def fl_3_2 fl_13
  by (subst fl_eval [where e = 0]) (simp_all add: round_even_def)

lemma fmul_15_12: "fmul (3 / 2) (6 / 5) = 2026619832316723 / 1125899906842624"
  unfolding fmul_def fl_3_2 fl_12
  by (subst fl_eval [where e = 0]) (simp_all add: round_even_def)

lemma fmul_13_12:
  "fmul (5854679515581645 / 4503599627370496) (6 / 5) = 3512807709348987 / 2251799813685248"
  unfolding fmul_def fl_d13 fl_12
  by (subst fl_eval [where e = 0]) (simp_all add: round_even_def)

lemma fmul_195_12:
  "fmul (2195504818343117 / 1125899906842624) (6 / 5) = 5269211564023481 / 2251799813685248"
  unfolding fmul_def fl_M195 fl_12
  by (subst fl_eval [where e = 1]) (simp_all add: round_even_def)

lemmas fmul_multipliers =
  fmul_1_15 fmul_1_13 fmul_1_12 fmul_15_13 fmul_15_12 fmul_13_12 fmul_195_12

subsection \<open>Keys, weights and arithmetic\<close>

lemma keys_UNIV: "set parameterKeys = UNIV"
proof -
  have "k \<in> set parameterKeys" for k
    by (cases k) (simp_all add: parameterKeys_def)
  then show ?thesis by auto
qed

lemma keys_distinct: "distinct parameterKeys"
  by (simp add: parameterKeys_def)

lemma ex_keys:
  "(\<exists>k. P k) \<longleftrightarrow> P Ph \<or> P Ec \<or> P AirTemperature \<or> P SolutionTemperature \<or> P LightIntensity
      \<or> P Co2Level \<or> P Humidity \<or> P WaterLevel \<or> P OxygenLevel"
  by (metis ParameterKey.exhaust)

lemma weight_bounds: "6 / 10 \<le> PARAM_WEIGHTS k \<and> PARAM_WEIGHTS k \<le> 15 / 10"
  by (cases k) simp_all

lemma round_max_0: "round (max 0 x) = max 0 (round (x::real))"
proof (cases "0 \<le> x")
  case True
  then have "round (0::real) \<le> round x" by (rule round_mono)
  with True show ?thesis by (simp add: max_def)
next
  case False
  then have "round x \<le> round (0::real)" by (intro round_mono) simp
  with False show ?thesis by (simp add: max_def)
qed

lemma round_small:
  fixes x :: real
  assumes "0 \<le> x" "x < 1 / 2"
  shows "round x = 0"
  unfolding round_def using assms by (intro floor_unique) auto

lemma floor_powr_small:
  fixes w :: real
  assumes "6 / 10 \<le> w"
  shows "(1 / 100) powr (1 + w) \<le> 1 / 1000"
proof -
  have "(1 / 100 :: real) powr (1 + w) \<le> (1 / 100) powr (3 / 2)"
    using assms by (intro powr_mono') auto
  also have "(1 / 100 :: real) powr (3 / 2) = 1 / 1000"
  proof -
    have a: "(1 / 10 :: real) powr 2 = 1 / 100"
      by (simp add: power2_eq_square)
    have b: "(1 / 10 :: real) powr 3 = 1 / 1000"
      by (simp add: power3_eq_cube)
    have "((1 / 10 :: real) powr 2) powr (3 / 2) = (1 / 10) powr (2 * (3 / 2))"
      by (rule powr_powr)
    also have "(2 * (3 / 2) :: real) = 3" by simp
    finally show ?thesis unfolding a b .
  qed
  finally show ?thesis .
qed

lemma powr_samples:
  "(81 / 100 :: real) powr (5 / 2) = 59049 / 100000"
  "(59049 / 100000 :: real) powr (11 / 5) = 31381059609 / 100000000000"
proof -
  have a: "(9 / 10 :: real) powr 2 = 81 / 100"
    by (simp add: power2_eq_square)
  have b: "(9 / 10 :: real) powr 5 = 59049 / 100000"
    using powr_realpow [of "9 / 10 :: real" 5] by (simp add: power_divide)
  have c: "(9 / 10 :: real) powr 11 = 31381059609 / 100000000000"
    using powr_realpow [of "9 / 10 :: real" 11] by (simp add: power_divide)
  have "((9 / 10 :: real) powr 2) powr (5 / 2) = (9 / 10) powr (2 * (5 / 2))"
    by (rule powr_powr)
  also have "(2 * (5 / 2) :: real) = 5" by simp
  finally show "(81 / 100 :: real) powr (5 / 2) = 59049 / 100000"
    unfolding a b .
  have "((9 / 10 :: real) powr 5) powr (11 / 5) = (9 / 10) powr (5 * (11 / 5))"
    by (rule powr_powr)
  also have "(5 * (11 / 5) :: real) = 11" by simp
  finally show "(59049 / 100000 :: real) powr (11 / 5) = 31381059609 / 100000000000"
    unfolding b c .
qed

lemma prod_list_unit_interval:
  fixes xs :: "real list"
  assumes "\<forall>x\<in>set xs. 0 < x \<and> x \<le> 1"
  shows "0 < prod_list xs \<and> prod_list xs \<le> 1"
  using assms
proof (induction xs)
  case Nil
  then show ?case by simp
next
  case (Cons x xs)
  then have "0 < x" "x \<le> 1" "0 < prod_list xs" "prod_list xs \<le> 1" by simp_all
  then show ?case by (simp add: mult_le_one)
qed

lemma prod_list_le_member:
  fixes xs :: "real list"
  assumes "\<forall>x\<in>set xs. 0 < x \<and> x \<le> 1" "y \<in> set xs"
  shows "prod_list xs \<le> y"
  using assms
proof (induction xs)
  case Nil
  then show ?case by simp
next
  case (Cons x xs)
  have x: "0 < x" "x \<le> 1" using Cons.prems by simp_all
  have all: "\<forall>x\<in>set xs. 0 < x \<and> x \<le> 1" using Cons.prems by simp
  have p: "0 < prod_list xs" "prod_list xs \<le> 1"
    using prod_list_unit_interval [OF all] by simp_all
  show ?case
  proof (cases "y = x")
    case True
    have "x * prod_list xs \<le> x * 1"
      using x p by (intro mult_left_mono) simp_all
    with True show ?thesis by simp
  next
    case False
    then have "y \<in> set xs" using Cons.prems by simp
    then have "prod_list xs \<le> y" using Cons.IH all by simp
    moreover have "x * prod_list xs \<le> 1 * prod_list xs"
      using x p by (intro mult_right_mono) simp_all
    ultimately show ?thesis by simp
  qed
qed

lemma interaction_factor_le:
  fixes ym :: real
  assumes "0 < ym" "ym \<le> 1"
  shows "0 < ym * (if b then 9 / 10 else 1)" "ym * (if b then 9 / 10 else 1) \<le> ym"
  using assms by auto

lemma half_not_int: "(81 / 2 :: real) \<notin> \<int>"
proof
  assume "(81 / 2 :: real) \<in> \<int>"
  then obtain n :: int where n: "(81 / 2 :: real) = of_int n" by (rule Ints_cases)
  then have "(81 :: real) = of_int (2 * n)" by simp
  then have "(81 :: int) = 2 * n" by linarith
  then show False by presburger
qed

subsection \<open>The normalisation and the factor of one key\<close>

lemma cln_total: "\<exists>l. computeLinearNormalized v mn mx cmin cmax = Some l \<and> 0 \<le> l \<and> l \<le> 1"
  by (auto simp: computeLinearNormalized_def js_div_def clamp_def)



lemma powr_floor_bounds:
  fixes l w :: real
  assumes "0 \<le> l" "l \<le> 1" "0 \<le> w"
  shows "(1 / 100) powr (1 + w) \<le> (max (1 / 100) l) powr (1 + w)"
    and "(max (1 / 100) l) powr (1 + w) \<le> 1"
    and "0 < (max (1 / 100) l) powr (1 + w)"
proof -
  show "(1 / 100) powr (1 + w) \<le> (max (1 / 100) l) powr (1 + w)"
    using assms by (intro powr_mono2) auto
  show "(max (1 / 100) l) powr (1 + w) \<le> 1"
    using assms by (intro powr_le1) auto
  show "0 < (max (1 / 100) l) powr (1 + w)"
    by (simp add: max_def)
qed

lemma impact_of_bounds:
  "\<exists>i. impact_of k r v = Some i \<and> (1 / 100) powr (1 + PARAM_WEIGHTS k) \<le> i \<and> 0 < i \<and> i \<le> 1"
proof (cases "v \<ge> min_r r \<and> v \<le> max_r r")
  case True
  have "(1 / 100 :: real) powr (1 + PARAM_WEIGHTS k) \<le> 1"
    using weight_bounds [of k] by (intro powr_le1) auto
  with True show ?thesis by (simp add: impact_of_def)
next
  case False
  obtain l where l: "computeLinearNormalized v (min_r r) (max_r r) (cmin_of r) (cmax_of r) = Some l"
    "0 \<le> l" "l \<le> 1"
    using cln_total by blast
  have w: "0 \<le> PARAM_WEIGHTS k" using weight_bounds [of k] by simp
  show ?thesis
    using False l powr_floor_bounds [OF l(2) l(3) w]
    by (simp add: impact_of_def)
qed

lemma impact_fun:
  "\<exists>imp. \<forall>k. impact_of k (limits_of (optimal c) k) (param p k) = Some (imp k)
             \<and> (1 / 100) powr (1 + PARAM_WEIGHTS k) \<le> imp k \<and> 0 < imp k \<and> imp k \<le> 1"
proof -
  have "\<forall>k. \<exists>i. impact_of k (limits_of (optimal c) k) (param p k) = Some i
             \<and> (1 / 100) powr (1 + PARAM_WEIGHTS k) \<le> i \<and> 0 < i \<and> i \<le> 1"
    using impact_of_bounds by blast
  then show ?thesis by (rule choice)
qed

lemma violation_impact:
  assumes "range_ok r" "v < cmin_of r \<or> v > cmax_of r"
  shows "impact_of k r v = Some ((1 / 100) powr (1 + PARAM_WEIGHTS k))"
proof -
  have ok: "min_r r \<le> max_r r" "cmin_of r \<le> min_r r" "max_r r \<le> cmax_of r"
    using assms(1) by (auto simp: range_ok_def cmin_of_def cmax_of_def split: option.splits)
  have "computeLinearNormalized v (min_r r) (max_r r) (cmin_of r) (cmax_of r) = Some 0"
  proof (cases "v < cmin_of r")
    case True
    then have below: "v < min_r r" using ok by simp
    show ?thesis
    proof (cases "cmin_of r \<ge> min_r r")
      case True
      with below show ?thesis by (simp add: computeLinearNormalized_def)
    next
      case False
      then have "(v - cmin_of r) / (min_r r - cmin_of r) \<le> 0"
        using \<open>v < cmin_of r\<close> by (simp add: divide_le_0_iff)
      with False below show ?thesis
        by (simp add: computeLinearNormalized_def js_div_def clamp_def)
    qed
  next
    case False
    then have above: "v > cmax_of r" using assms(2) by simp
    then have nb: "\<not> v < min_r r" "v > max_r r" using ok by simp_all
    show ?thesis
    proof (cases "cmax_of r \<le> max_r r")
      case True
      with nb show ?thesis by (simp add: computeLinearNormalized_def)
    next
      case False
      then have "(cmax_of r - v) / (cmax_of r - max_r r) \<le> 0"
        using above by (simp add: divide_le_0_iff)
      with False nb show ?thesis
        by (simp add: computeLinearNormalized_def js_div_def clamp_def)
    qed
  qed
  moreover have "\<not> (v \<ge> min_r r \<and> v \<le> max_r r)"
    using ok assms(2) by auto
  ultimately show ?thesis
    by (auto simp: impact_of_def)
qed

subsection \<open>The loops in closed form\<close>

lemma yield_step_impact:
  "yield_step p c k (ym, devs, iss) =
     (case impact_of k (limits_of (optimal c) k) (param p k) of
        None \<Rightarrow> None
      | Some i \<Rightarrow>
          Some (ym * i, devs(k \<mapsto> \<bar>1 - i\<bar>),
                iss @ (if i < 1
                       then [YieldIssue k (param p k) (min_r (limits_of (optimal c) k))
                               (max_r (limits_of (optimal c) k)) (round (i * 100))]
                       else [])))"
  by (simp add: yield_step_def impact_of_def Let_def split: option.splits)

lemma yield_fold:
  assumes "\<forall>k\<in>set ks. impact_of k (limits_of (optimal c) k) (param p k) = Some (imp k)"
  shows "fold (\<lambda>key st. Option.bind st (yield_step p c key)) ks (Some (ym, devs, iss)) =
         Some (ym * prod_list (map imp ks),
               (\<lambda>k. if k \<in> set ks then Some \<bar>1 - imp k\<bar> else devs k),
               iss @ concat (map (yield_issue p c imp) ks))"
  using assms
proof (induction ks arbitrary: ym devs iss)
  case Nil
  then show ?case by simp
next
  case (Cons a ks)
  have a: "impact_of a (limits_of (optimal c) a) (param p a) = Some (imp a)"
    using Cons.prems by simp
  have rest: "\<forall>k\<in>set ks. impact_of k (limits_of (optimal c) k) (param p k) = Some (imp k)"
    using Cons.prems by simp
  have step: "yield_step p c a (ym, devs, iss) =
      Some (ym * imp a, devs(a \<mapsto> \<bar>1 - imp a\<bar>), iss @ yield_issue p c imp a)"
    by (simp add: yield_step_impact a yield_issue_def)
  have eq: "(\<lambda>k. if k \<in> set ks then Some \<bar>1 - imp k\<bar> else (devs(a \<mapsto> \<bar>1 - imp a\<bar>)) k) =
        (\<lambda>k. if k \<in> set (a # ks) then Some \<bar>1 - imp k\<bar> else devs k)"
    by (rule ext) auto
  have "fold (\<lambda>key st. Option.bind st (yield_step p c key)) (a # ks) (Some (ym, devs, iss)) =
        fold (\<lambda>key st. Option.bind st (yield_step p c key)) ks
          (Some (ym * imp a, devs(a \<mapsto> \<bar>1 - imp a\<bar>), iss @ yield_issue p c imp a))"
    by (simp only: fold_simps bind.simps step)
  also have "\<dots> = Some (ym * imp a * prod_list (map imp ks),
               (\<lambda>k. if k \<in> set ks then Some \<bar>1 - imp k\<bar> else (devs(a \<mapsto> \<bar>1 - imp a\<bar>)) k),
               (iss @ yield_issue p c imp a) @ concat (map (yield_issue p c imp) ks))"
    by (rule Cons.IH [OF rest])
  also have "\<dots> = Some (ym * prod_list (map imp (a # ks)),
               (\<lambda>k. if k \<in> set (a # ks) then Some \<bar>1 - imp k\<bar> else devs k),
               iss @ concat (map (yield_issue p c imp) (a # ks)))"
    unfolding eq by (simp add: mult.assoc)
  finally show ?case .
qed

lemma yield_loop_closed:
  assumes "\<forall>k. impact_of k (limits_of (optimal c) k) (param p k) = Some (imp k)"
  shows "yield_loop p c iss =
         Some (prod_list (map imp parameterKeys), (\<lambda>k. Some \<bar>1 - imp k\<bar>),
               iss @ concat (map (yield_issue p c imp) parameterKeys))"
proof -
  have "\<forall>k\<in>set parameterKeys. impact_of k (limits_of (optimal c) k) (param p k) = Some (imp k)"
    using assms by simp
  from yield_fold [OF this, of 1 Map.empty iss]
  show ?thesis by (simp add: yield_loop_def keys_UNIV)
qed

lemma interaction_penalty_closed:
  "interaction_penalty (ym, (\<lambda>k. Some \<bar>1 - imp k\<bar>), iss) =
     ym * (if \<bar>1 - imp Ec\<bar> > 2 / 10 \<and> \<bar>1 - imp Ph\<bar> > 15 / 100 then 9 / 10 else 1)"
  by (simp add: interaction_penalty_def)

lemma calculateYield_closed:
  assumes "\<forall>k. impact_of k (limits_of (optimal c) k) (param p k) = Some (imp k)"
  shows "calculateYield p c iss =
         Some (max 0 (round (prod_list (map imp parameterKeys)
                 * (if \<bar>1 - imp Ec\<bar> > 2 / 10 \<and> \<bar>1 - imp Ph\<bar> > 15 / 100 then 9 / 10 else 1) * 100)),
               iss @ concat (map (yield_issue p c imp) parameterKeys))"
  by (simp only: calculateYield_def yield_loop_closed [OF assms] option.case
        interaction_penalty_closed Let_def snd_conv)

lemma calculateYield_total: "\<exists>pct iss'. calculateYield p c iss = Some (pct, iss')"
proof -
  obtain imp where imp:
    "\<forall>k. impact_of k (limits_of (optimal c) k) (param p k) = Some (imp k)"
    using impact_fun [of c p] by blast
  show ?thesis
    using calculateYield_closed [OF imp, of iss] by simp
qed

lemma small_impact_zero_yield:
  assumes "impact_of k (limits_of (optimal c) k) (param p k) = Some i"
    and "i \<le> 1 / 1000"
  shows "\<exists>iss'. calculateYield p c iss = Some (0, iss')"
proof -
  obtain imp where imp:
    "\<forall>k. impact_of k (limits_of (optimal c) k) (param p k) = Some (imp k)
         \<and> (1 / 100) powr (1 + PARAM_WEIGHTS k) \<le> imp k \<and> 0 < imp k \<and> imp k \<le> 1"
    using impact_fun [of c p] by blast
  then have imp1: "\<forall>k. impact_of k (limits_of (optimal c) k) (param p k) = Some (imp k)"
    by simp
  define P where "P = prod_list (map imp parameterKeys)"
  define F :: real where
    "F = (if \<bar>1 - imp Ec\<bar> > 2 / 10 \<and> \<bar>1 - imp Ph\<bar> > 15 / 100 then 9 / 10 else 1)"
  have unit: "\<forall>x\<in>set (map imp parameterKeys). 0 < x \<and> x \<le> 1"
    using imp by simp
  have P: "0 < P" "P \<le> 1"
    unfolding P_def using prod_list_unit_interval [OF unit] by simp_all
  have "imp k = i"
    using imp1 assms(1) by simp
  then have small: "imp k \<le> 1 / 1000"
    using assms(2) by simp
  have "imp k \<in> set (map imp parameterKeys)"
    using keys_UNIV by simp
  then have "P \<le> imp k"
    unfolding P_def by (rule prod_list_le_member [OF unit])
  then have P_small: "P \<le> 1 / 1000" using small by simp
  have PF: "0 < P * F" "P * F \<le> P"
    unfolding F_def using interaction_factor_le [OF P] by simp_all
  have "round (P * F * 100) = 0"
    using PF P_small by (intro round_small) simp_all
  then show ?thesis
    using calculateYield_closed [OF imp1, of iss] by (simp add: P_def F_def)
qed

lemma violation_zero_yield:
  assumes "range_ok (limits_of (optimal c) k)"
    and "critical_violation p c k"
  shows "\<exists>iss'. calculateYield p c iss = Some (0, iss')"
proof -
  have "impact_of k (limits_of (optimal c) k) (param p k)
          = Some ((1 / 100) powr (1 + PARAM_WEIGHTS k))"
    using assms by (intro violation_impact) (simp_all add: critical_violation_def)
  moreover have "(1 / 100) powr (1 + PARAM_WEIGHTS k) \<le> 1 / 1000"
    using floor_powr_small [of "PARAM_WEIGHTS k"] weight_bounds [of k] by simp
  ultimately show ?thesis
    by (rule small_impact_zero_yield)
qed

lemma viability_fold:
  "fold (viability_step p c) ks (b, iss) =
     (b \<and> \<not> (\<exists>k\<in>set ks. critical_violation p c k),
      iss @ map (critical_issue p c) (filter (critical_violation p c) ks))"
proof (induction ks arbitrary: b iss)
  case Nil
  then show ?case by simp
next
  case (Cons a ks)
  show ?case
  proof (cases "critical_violation p c a")
    case True
    then have "viability_step p c a (b, iss) = (False, iss @ [critical_issue p c a])"
      by (simp add: viability_step_def critical_violation_def critical_issue_def Let_def)
    with True show ?thesis by (simp add: Cons.IH)
  next
    case False
    then have "viability_step p c a (b, iss) = (b, iss)"
      by (simp add: viability_step_def critical_violation_def Let_def)
    with False show ?thesis by (simp add: Cons.IH)
  qed
qed

lemma checkViability_closed:
  "checkViability p c iss =
     (\<not> (\<exists>k. critical_violation p c k),
      iss @ map (critical_issue p c) (filter (critical_violation p c) parameterKeys))"
  by (simp add: checkViability_def viability_fold keys_UNIV)

lemma calculateGrowthTime_closed:
  "calculateGrowthTime p c =
     min (of_int (round (fmul (optimal_gt (growthTime_cfg c)) (growth_multiplier p c))))
         (max_gt (growthTime_cfg c))"
  by (simp add: calculateGrowthTime_def growth_multiplier_def Let_def)

lemma growth_multiplier_ge_1: "1 \<le> growth_multiplier p c"
  by (simp add: growth_multiplier_def Let_def fmul_multipliers)

lemma growth_multiplier_close:
  "\<bar>growth_multiplier p c - exact_multiplier p c\<bar> \<le> exact_multiplier p c / 2 ^ 52"
  by (simp add: growth_multiplier_def exact_multiplier_def Let_def fmul_multipliers)

lemma exact_multiplier_ge_1: "1 \<le> exact_multiplier p c"
  by (simp add: exact_multiplier_def)

lemma rel_bounds:
  fixes x y e :: real
  assumes "\<bar>y - x\<bar> \<le> x * e"
  shows "x * (1 - e) \<le> y" "y \<le> x * (1 + e)"
  using assms by (simp_all add: algebra_simps abs_le_iff)

lemma rel_close:
  fixes z t d :: real
  assumes "z \<le> t * (1 + d)" "t * (1 - d) \<le> z"
  shows "\<bar>z - t\<bar> \<le> t * d"
  using assms by (simp add: algebra_simps abs_le_iff)

lemma round_samples:
  "round (57 / 2 :: real) = 29"
  "round (7599824371187711 / 562949953421312 :: real) = 13"
  "round (27 / 2 :: real) = 14"
  by (simp_all add: round_def)

lemma fmul_close:
  fixes x m M :: real
  assumes "0 < x" "0 < m" "\<bar>M - m\<bar> \<le> m / 2 ^ 52"
  shows "\<bar>fmul x M - x * m\<bar> \<le> x * m / 2 ^ 50"
proof -
  define e :: real where "e = 1 / 2 ^ 53"
  define a where "a = fl x"
  define B where "B = fl M"
  have lo: "0 < 1 - 2 * e" "0 < 1 - e"
    by (simp_all add: e_def)
  have "\<bar>M - m\<bar> \<le> m * (2 * e)"
    using assms(3) by (simp add: e_def)
  then have M: "m * (1 - 2 * e) \<le> M" "M \<le> m * (1 + 2 * e)"
    by (rule rel_bounds)+
  have Mpos: "0 < M"
    using M(1) assms(2) lo(1) by (meson less_le_trans mult_pos_pos)
  have "\<bar>a - x\<bar> \<le> x * e"
    using fl_error [of x] assms(1) by (simp add: a_def e_def)
  then have a: "x * (1 - e) \<le> a" "a \<le> x * (1 + e)"
    by (rule rel_bounds)+
  have apos: "0 < a"
    using a(1) assms(1) lo(2) by (meson less_le_trans mult_pos_pos)
  have "\<bar>B - M\<bar> \<le> M * e"
    using fl_error [of M] Mpos by (simp add: B_def e_def)
  then have B: "M * (1 - e) \<le> B" "B \<le> M * (1 + e)"
    by (rule rel_bounds)+
  have Bpos: "0 < B"
    using B(1) Mpos lo(2) by (meson less_le_trans mult_pos_pos)
  have abpos: "0 < a * B" using apos Bpos by simp
  have "\<bar>fl (a * B) - a * B\<bar> \<le> a * B * e"
    using fl_error [of "a * B"] abpos by (simp add: e_def)
  then have z: "a * B * (1 - e) \<le> fl (a * B)" "fl (a * B) \<le> a * B * (1 + e)"
    by (rule rel_bounds)+
  have xm: "0 < x * m" using assms by simp
  have B_hi: "B \<le> m * ((1 + 2 * e) * (1 + e))"
  proof -
    have "M * (1 + e) \<le> m * (1 + 2 * e) * (1 + e)"
      using M(2) by (intro mult_right_mono) (simp_all add: e_def)
    with B(2) show ?thesis by (simp add: mult.assoc)
  qed
  have B_lo: "m * ((1 - 2 * e) * (1 - e)) \<le> B"
  proof -
    have "m * (1 - 2 * e) * (1 - e) \<le> M * (1 - e)"
      using M(1) lo by (intro mult_right_mono) simp_all
    with B(1) show ?thesis by (simp add: mult.assoc)
  qed
  have ab_hi: "a * B \<le> (x * (1 + e)) * (m * ((1 + 2 * e) * (1 + e)))"
    using a(2) B_hi apos Bpos by (intro mult_mono) simp_all
  have ab_lo: "(x * (1 - e)) * (m * ((1 - 2 * e) * (1 - e))) \<le> a * B"
    using a(1) B_lo apos assms lo by (intro mult_mono) simp_all
  have hi: "fl (a * B) \<le> x * m * ((1 + e) * ((1 + 2 * e) * (1 + e)) * (1 + e))"
  proof -
    have "a * B * (1 + e) \<le> (x * (1 + e)) * (m * ((1 + 2 * e) * (1 + e))) * (1 + e)"
      using ab_hi by (intro mult_right_mono) (simp_all add: e_def)
    with z(2) show ?thesis by (simp add: mult_ac)
  qed
  have lw: "x * m * ((1 - e) * ((1 - 2 * e) * (1 - e)) * (1 - e)) \<le> fl (a * B)"
  proof -
    have "(x * (1 - e)) * (m * ((1 - 2 * e) * (1 - e))) * (1 - e) \<le> a * B * (1 - e)"
      using ab_lo lo by (intro mult_right_mono) simp_all
    with z(1) show ?thesis by (simp add: mult_ac)
  qed
  have k_hi: "(1 + e) * ((1 + 2 * e) * (1 + e)) * (1 + e) \<le> 1 + 1 / 2 ^ 50"
    by (simp add: e_def)
  have k_lo: "1 - 1 / 2 ^ 50 \<le> (1 - e) * ((1 - 2 * e) * (1 - e)) * (1 - e)"
    by (simp add: e_def)
  have "x * m * ((1 + e) * ((1 + 2 * e) * (1 + e)) * (1 + e)) \<le> x * m * (1 + 1 / 2 ^ 50)"
    using k_hi xm by (intro mult_left_mono) simp_all
  with hi have up: "fl (a * B) \<le> x * m * (1 + 1 / 2 ^ 50)" by linarith
  have "x * m * (1 - 1 / 2 ^ 50) \<le> x * m * ((1 - e) * ((1 - 2 * e) * (1 - e)) * (1 - e))"
    using k_lo xm by (intro mult_left_mono) simp_all
  with lw have dn: "x * m * (1 - 1 / 2 ^ 50) \<le> fl (a * B)" by linarith
  have "\<bar>fl (a * B) - x * m\<bar> \<le> x * m * (1 / 2 ^ 50)"
    using up dn by (rule rel_close)
  then show ?thesis
    by (simp add: fmul_def a_def B_def)
qed

lemma simulateGrowth_closed:
  assumes "CROP_PARAMETERS (cropType p) = Some c"
    and "calculateYield p c (snd (checkViability p c [])) = Some (pct, iss2)"
  shows "simulateGrowth CROP_PARAMETERS p =
     Inr \<lparr>isViable = fst (checkViability p c []),
          yieldPercentage = pct,
          expectedGrams = round (fmul (maxYield c) (fdiv (real_of_int pct) 100)),
          yieldPerSquareMeter =
            fdiv (real_of_int (round (fmul (fdiv (real_of_int
              (round (fmul (maxYield c) (fdiv (real_of_int pct) 100)))) 1000) 100))) 100,
          growthTime = calculateGrowthTime p c,
          issues = iss2,
          recommendations = generateRecommendations p c []\<rparr>"
proof -
  obtain v iss1 where cv: "checkViability p c [] = (v, iss1)"
    by (cases "checkViability p c []") simp
  have y: "calculateYield p c iss1 = Some (pct, iss2)"
    using assms(2) by (simp add: cv)
  have m: "(if maxYield c = 0 then 0 else maxYield c) = maxYield c"
    by simp
  show ?thesis
    unfolding simulateGrowth_def m by (simp add: assms(1) cv y Let_def)
qed

lemma profile_ok_range: "profile_ok c \<Longrightarrow> range_ok (limits_of (optimal c) k)"
proof -
  assume "profile_ok c"
  then have "\<forall>k\<in>set parameterKeys. range_ok (limits_of (optimal c) k)"
    by (simp add: profile_ok_def list_all_iff)
  then show ?thesis by (simp add: keys_UNIV)
qed

subsection \<open>All readings optimal\<close>

lemma all_optimal_iff:
  "all_optimal p c \<longleftrightarrow>
     (\<forall>k. min_r (limits_of (optimal c) k) \<le> param p k \<and> param p k \<le> max_r (limits_of (optimal c) k))"
  by (simp add: all_optimal_def list_all_iff keys_UNIV)

lemma rec_fold_optimal:
  assumes "\<forall>k\<in>set ks. min_r (limits_of (optimal c) k) \<le> param p k
                      \<and> param p k \<le> max_r (limits_of (optimal c) k)"
  shows "fold (rec_step p c) ks recs = recs"
  using assms by (induction ks arbitrary: recs) (simp_all add: rec_step_def Let_def)

lemma all_optimal_recommendations:
  assumes "all_optimal p c"
  shows "generateRecommendations p c [] = (if ph_ec_advisory p c then [PhEcAdvisory] else [])"
proof -
  have "fold (rec_step p c) parameterKeys [] = []"
    using assms by (intro rec_fold_optimal) (simp add: all_optimal_iff)
  then show ?thesis
    by (simp add: generateRecommendations_def ph_ec_advisory_def Let_def)
qed

lemma all_optimal_yield:
  assumes "all_optimal p c"
  shows "calculateYield p c iss = Some (100, iss)"
proof -
  have imp: "\<forall>k. impact_of k (limits_of (optimal c) k) (param p k) = Some ((\<lambda>_. 1) k)"
    using assms by (simp add: all_optimal_iff impact_of_def)
  have "prod_list (map (\<lambda>_. 1 :: real) parameterKeys) = 1"
    by (simp add: parameterKeys_def)
  moreover have "concat (map (yield_issue p c (\<lambda>_. 1)) parameterKeys) = []"
    by (simp add: yield_issue_def)
  ultimately show ?thesis
    using calculateYield_closed [OF imp, of iss] by simp
qed

lemma all_optimal_viable:
  assumes "profile_ok c" "all_optimal p c"
  shows "checkViability p c iss = (True, iss)"
proof -
  have "\<not> critical_violation p c k" for k
  proof -
    have "range_ok (limits_of (optimal c) k)"
      using assms(1) by (rule profile_ok_range)
    then have "cmin_of (limits_of (optimal c) k) \<le> min_r (limits_of (optimal c) k)"
      "max_r (limits_of (optimal c) k) \<le> cmax_of (limits_of (optimal c) k)"
      by (auto simp: range_ok_def cmin_of_def cmax_of_def split: option.splits)
    moreover have "min_r (limits_of (optimal c) k) \<le> param p k"
      "param p k \<le> max_r (limits_of (optimal c) k)"
      using assms(2) by (simp_all add: all_optimal_iff)
    ultimately show ?thesis
      by (simp add: critical_violation_def)
  qed
  then show ?thesis
    by (simp add: checkViability_closed)
qed

lemma all_optimal_growthTime:
  assumes "all_optimal p c" and "is_double (optimal_gt (growthTime_cfg c))"
  shows "calculateGrowthTime p c =
           min (of_int (round (optimal_gt (growthTime_cfg c)))) (max_gt (growthTime_cfg c))"
proof -
  have "min_r (limits_of (optimal c) AirTemperature) \<le> param p AirTemperature"
    "min_r (limits_of (optimal c) LightIntensity) \<le> param p LightIntensity"
    "min_r (limits_of (optimal c) Co2Level) \<le> param p Co2Level"
    using assms(1) unfolding all_optimal_iff by blast+
  then have "growth_multiplier p c = 1"
    by (simp add: growth_multiplier_def)
  then show ?thesis
    by (simp add: calculateGrowthTime_closed fmul_1_right [OF assms(2)])
qed

lemma all_optimal_simulate:
  assumes "CROP_PARAMETERS (cropType p) = Some c" "profile_ok c" "all_optimal p c"
    and "is_double (optimal_gt (growthTime_cfg c))"
  shows "\<exists>r. simulateGrowth CROP_PARAMETERS p = Inr r
           \<and> isViable r \<and> yieldPercentage r = 100
           \<and> growthTime r = min (of_int (round (optimal_gt (growthTime_cfg c)))) (max_gt (growthTime_cfg c))
           \<and> issues r = []
           \<and> recommendations r = (if ph_ec_advisory p c then [PhEcAdvisory] else [])"
proof -
  have v: "checkViability p c [] = (True, [])"
    using assms(2,3) by (rule all_optimal_viable)
  have y: "calculateYield p c (snd (checkViability p c [])) = Some (100, [])"
    unfolding v using assms(3) by (simp add: all_optimal_yield)
  show ?thesis
    unfolding simulateGrowth_closed [of CROP_PARAMETERS p c 100 "[]", OF assms(1) y]
    by (simp add: v all_optimal_growthTime [OF assms(3,4)]
          all_optimal_recommendations [OF assms(3)])
qed

subsection \<open>The sample inputs\<close>

lemma sampleProfile_ok: "profile_ok sampleProfile"
  by (simp add: profile_ok_def sampleProfile_def parameterKeys_def range_ok_def)

lemma default_all_optimal: "all_optimal defaultParameters sampleProfile"
  by (simp add: all_optimal_def sampleProfile_def parameterKeys_def defaultParameters_def)

lemma sample_lookup: "sampleRegistry (cropType defaultParameters) = Some sampleProfile"
  by (simp add: sampleRegistry_def defaultParameters_def)

lemma sample_impacts:
  "impact_of k (limits_of (optimal sampleProfile) k) (param bothDeviateParameters k)
     = Some (if k = Ph then 31381059609 / 100000000000
             else if k = Ec then 59049 / 100000 else 1)"
  "impact_of k (limits_of (optimal sampleProfile) k) (param ecDeviatesParameters k)
     = Some (if k = Ec then 59049 / 100000 else 1)"
  by (cases k;
      simp add: impact_of_def sampleProfile_def bothDeviateParameters_def
        ecDeviatesParameters_def defaultParameters_def
        computeLinearNormalized_def cmin_of_def cmax_of_def js_div_def clamp_def powr_samples)+

lemma sample_rounds:
  "round (16677181699666569 / 1000000000000000 :: real) = 17"
  "round (59049 / 1000 :: real) = 59"
  by (simp_all add: round_def)

text \<open>With a maximal yield of \<open>145\<close> grams and a yield of \<open>100\<close> percent, the kilograms per square
  metre are the double of \<open>0.14\<close>: the double of \<open>0.145\<close> times \<open>100\<close> is \<open>14.499999999999998\<close>.\<close>

lemma fl_grams:
  "fl 100 = 100" "fl 145 = 145" "fl 1000 = 1000" "fl 14 = 14"
  "fl (29 / 200) = 5224175567749775 / 36028797018963968"
  "fl (5224175567749775 / 36028797018963968) = 5224175567749775 / 36028797018963968"
  "fl (130604389193744375 / 9007199254740992) = 8162774324609023 / 562949953421312"
  "fl (7 / 50) = 1261007895663739 / 9007199254740992"
proof -
  show "fl 100 = 100" "fl 145 = 145" "fl 1000 = 1000" "fl 14 = 14"
    by (simp_all add: fl_numeral)
  show "fl (29 / 200) = 5224175567749775 / 36028797018963968"
    by (subst fl_eval [where e = "-3"]) (simp_all add: round_even_def)
  show "fl (5224175567749775 / 36028797018963968) = 5224175567749775 / 36028797018963968"
    using fl_dyadic [of 5224175567749775 55] by simp
  show "fl (130604389193744375 / 9007199254740992) = 8162774324609023 / 562949953421312"
    by (subst fl_eval [where e = 3]) (simp_all add: round_even_def)
  show "fl (7 / 50) = 1261007895663739 / 9007199254740992"
    by (subst fl_eval [where e = "-3"]) (simp_all add: round_even_def)
qed

lemma round_grams:
  "round (145 :: real) = 145"
  "round (8162774324609023 / 562949953421312 :: real) = 14"
  by (simp_all add: round_def)

lemma sample_grams:
  "map_sum id expectedGrams (simulateGrowth lightHeadRegistry defaultParameters) = Inr 145"
  "map_sum id yieldPerSquareMeter (simulateGrowth lightHeadRegistry defaultParameters)
     = Inr (1261007895663739 / 9007199254740992)"
proof -
  have l: "lightHeadRegistry (cropType defaultParameters) = Some lightHeadProfile"
    by (simp add: lightHeadRegistry_def defaultParameters_def)
  have a: "all_optimal defaultParameters lightHeadProfile"
    by (simp add: all_optimal_def lightHeadProfile_def sampleProfile_def parameterKeys_def
          defaultParameters_def)
  have y: "calculateYield defaultParameters lightHeadProfile
             (snd (checkViability defaultParameters lightHeadProfile [])) = Some (100, snd (checkViability defaultParameters lightHeadProfile []))"
    using a by (rule all_optimal_yield)
  have m: "maxYield lightHeadProfile = 145"
    by (simp add: lightHeadProfile_def)
  have q: "fdiv (real_of_int 100) 100 = 1"
    by (simp add: fdiv_def fl_grams fl_1)
  have g: "round (fmul 145 1) = 145"
    by (simp add: fmul_def fl_grams fl_1)
  have k: "fdiv (real_of_int 145) 1000 = 5224175567749775 / 36028797018963968"
    by (simp add: fdiv_def fl_grams)
  have h: "fmul (5224175567749775 / 36028797018963968) 100 = 8162774324609023 / 562949953421312"
    by (simp add: fmul_def fl_grams)
  have z: "fdiv (real_of_int 14) 100 = 1261007895663739 / 9007199254740992"
    by (simp add: fdiv_def fl_grams)
  note sim = simulateGrowth_closed [of lightHeadRegistry defaultParameters lightHeadProfile 100
      "snd (checkViability defaultParameters lightHeadProfile [])", OF l y]
  show "map_sum id expectedGrams (simulateGrowth lightHeadRegistry defaultParameters) = Inr 145"
    unfolding sim m q g by simp
  show "map_sum id yieldPerSquareMeter (simulateGrowth lightHeadRegistry defaultParameters)
     = Inr (1261007895663739 / 9007199254740992)"
    unfolding sim m q g k h round_grams z by simp
qed

lemma fl_small_values:
  "fl 2 = 2" "fl 3 = 3" "fl 4 = 4" "fl 6 = 6" "fl 12 = 12" "fl 30 = 30" "fl 45 = 45"
  "fl (11 / 2) = 11 / 2" "fl (13 / 2) = 13 / 2" "fl (15 / 2) = 15 / 2" "fl (57 / 2) = 57 / 2"
  "fl (- 1) = - 1" "fl (- (1 / 2)) = - (1 / 2)"
  using fl_dyadic [of 2 0] fl_dyadic [of 3 0] fl_dyadic [of 4 0] fl_dyadic [of 6 0]
    fl_dyadic [of 12 0] fl_dyadic [of 30 0] fl_dyadic [of 45 0]
    fl_dyadic [of 11 1] fl_dyadic [of 13 1] fl_dyadic [of 15 1] fl_dyadic [of 57 1]
    fl_dyadic [of "- 1" 0] fl_dyadic [of "- 1" 1]
  by simp_all

lemma sample_advisory_default: "\<not> ph_ec_advisory defaultParameters sampleProfile"
  by (simp add: ph_ec_advisory_def defaultParameters_def sampleProfile_def
        fadd_def fsub_def fdiv_def fl_1 fl_3_2 fl_small_values fl_0 fl_08 fl_04)

lemma sample_advisory_lowEnd: "ph_ec_advisory lowEndParameters sampleProfile"
  by (simp add: ph_ec_advisory_def lowEndParameters_def defaultParameters_def sampleProfile_def
        fadd_def fsub_def fdiv_def fl_1 fl_small_values fl_08 fl_04)

text \<open>The decimal \<open>5.6\<close> is not a double; the double that stands for it is farther than the
  double of \<open>0.4\<close> from \<open>6\<close>, and with an EC of \<open>1\<close> the advisory is given although \<open>5.6\<close>
  itself is at distance \<open>0.4\<close>.\<close>

lemma fl_56: "fl (28 / 5) = 3152519739159347 / 562949953421312"
  by (subst fl_eval [where e = 2]) (simp_all add: round_even_def)

lemma sample_advisory_rounded:
  "ph_ec_advisory (defaultParameters\<lparr>ph := 56 / 10, ec := 1\<rparr>) sampleProfile"
proof -
  have d: "fl (- (225179981368525 / 562949953421312)) = - (225179981368525 / 562949953421312)"
    using fl_dyadic [of "- 225179981368525" 49] by simp
  show ?thesis
    by (simp add: ph_ec_advisory_def defaultParameters_def sampleProfile_def
          fadd_def fsub_def fdiv_def fl_1 fl_small_values fl_08 fl_04 fl_56 d)
qed

section \<open>The properties of the specification\<close>

subsection \<open>C1: the range of the yield percentage\<close>

text \<open>
  C1. The yield evaluator returns a percentage for every input and every profile (the
  invariants of the profile are not needed). The percentage is
  \<open>round (max 0 (yieldMultiplier * 100))\<close> for the final \<open>yieldMultiplier\<close>, and lies between \<open>0\<close>
  and \<open>100\<close>: every per-key factor is at most \<open>1\<close>, and so is the multiplier after the
  interaction step.
\<close>

theorem yieldPercentage_range:
  "\<exists>imp st pct iss'.
     (\<forall>k. impact_of k (limits_of (optimal c) k) (param p k) = Some (imp k) \<and> imp k \<le> 1)
     \<and> yield_loop p c iss = Some st
     \<and> interaction_penalty st \<le> 1
     \<and> calculateYield p c iss = Some (pct, iss')
     \<and> pct = round (max 0 (interaction_penalty st * 100))
     \<and> 0 \<le> pct \<and> pct \<le> 100"
proof -
  obtain imp where imp:
    "\<forall>k. impact_of k (limits_of (optimal c) k) (param p k) = Some (imp k)
         \<and> (1 / 100) powr (1 + PARAM_WEIGHTS k) \<le> imp k \<and> 0 < imp k \<and> imp k \<le> 1"
    using impact_fun [of c p] by blast
  then have imp1: "\<forall>k. impact_of k (limits_of (optimal c) k) (param p k) = Some (imp k)"
    by simp
  define P where "P = prod_list (map imp parameterKeys)"
  define st where "st = (P, (\<lambda>k. Some \<bar>1 - imp k\<bar>), iss @ concat (map (yield_issue p c imp) parameterKeys))"
  define pct where "pct = max 0 (round (interaction_penalty st * 100))"
  have loop: "yield_loop p c iss = Some st"
    unfolding st_def P_def by (rule yield_loop_closed [OF imp1])
  have "\<forall>x\<in>set (map imp parameterKeys). 0 < x \<and> x \<le> 1"
    using imp by simp
  then have P: "0 < P" "P \<le> 1"
    unfolding P_def using prod_list_unit_interval by blast+
  have pen: "interaction_penalty st =
      P * (if \<bar>1 - imp Ec\<bar> > 2 / 10 \<and> \<bar>1 - imp Ph\<bar> > 15 / 100 then 9 / 10 else 1)"
    unfolding st_def by (rule interaction_penalty_closed)
  have le1: "interaction_penalty st \<le> 1"
    using interaction_factor_le(2) [OF P] P(2) unfolding pen by (rule order_trans)
  have calc: "calculateYield p c iss = Some (pct, snd (snd st))"
    by (simp add: calculateYield_def loop pct_def)
  have eq: "pct = round (max 0 (interaction_penalty st * 100))"
    by (simp add: pct_def round_max_0)
  have lo: "0 \<le> pct" by (simp add: pct_def)
  have "round (interaction_penalty st * 100) \<le> round (100 :: real)"
    using le1 by (intro round_mono) simp
  then have hi: "pct \<le> 100" by (simp add: pct_def)
  have all: "\<forall>k. impact_of k (limits_of (optimal c) k) (param p k) = Some (imp k) \<and> imp k \<le> 1"
    using imp by simp
  show ?thesis
    using all loop le1 calc eq lo hi by blast
qed

theorem yieldPercentage_range_witness:
  "map_option fst (calculateYield defaultParameters sampleProfile []) = Some 100
   \<and> map_option fst (calculateYield nonViableParameters sampleProfile []) = Some 0"
proof -
  have hi: "calculateYield defaultParameters sampleProfile [] = Some (100, [])"
    using default_all_optimal by (rule all_optimal_yield)
  have "critical_violation nonViableParameters sampleProfile Ph"
    by (simp add: critical_violation_def nonViableParameters_def defaultParameters_def
          sampleProfile_def cmin_of_def)
  then have "\<exists>iss'. calculateYield nonViableParameters sampleProfile [] = Some (0, iss')"
    using profile_ok_range [OF sampleProfile_ok] by (intro violation_zero_yield)
  then have lo: "map_option fst (calculateYield nonViableParameters sampleProfile []) = Some 0"
    by auto
  obtain imp :: "ParameterKey \<Rightarrow> real" and st :: yield_state and pct iss' where
    "calculateYield defaultParameters sampleProfile [] = Some (pct, iss')"
    "0 \<le> pct" "pct \<le> 100"
    using yieldPercentage_range [of sampleProfile defaultParameters "[]"] by blast
  then show ?thesis
    using hi lo by simp
qed

subsection \<open>C2: every reading optimal\<close>

text \<open>
  C2 (as amended). For a profile of the table that satisfies its invariants and whose
  optimal growth time is a whole number (and a double, as every number of the code is), if
  every one of the nine readings lies in its optimal interval, the result is viable, its
  \<open>yieldPercentage\<close> is \<open>100\<close>, its \<open>growthTime\<close> is the optimal growth time of the profile, its
  \<open>issues\<close> are empty, and its \<open>recommendations\<close> hold no directive for a single parameter:
  they hold the combined advisory on pH and EC, and nothing else, when in double arithmetic
  the EC is more than \<open>0.8\<close> and the pH more than \<open>0.4\<close> away from the midpoint of its optimal
  interval, and they are empty otherwise.
\<close>

theorem all_optimal_result:
  assumes "CROP_PARAMETERS (cropType p) = Some c"
    and "profile_ok c"
    and "optimal_gt (growthTime_cfg c) \<in> \<int>"
    and "is_double (optimal_gt (growthTime_cfg c))"
    and "all_optimal p c"
  shows "\<exists>r. simulateGrowth CROP_PARAMETERS p = Inr r
           \<and> isViable r \<and> yieldPercentage r = 100
           \<and> growthTime r = optimal_gt (growthTime_cfg c)
           \<and> issues r = []
           \<and> recommendations r = (if ph_ec_advisory p c then [PhEcAdvisory] else [])
           \<and> (recommendations r = [] \<or> recommendations r = [PhEcAdvisory])"
proof -
  obtain n :: int where n: "optimal_gt (growthTime_cfg c) = of_int n"
    using assms(3) by (rule Ints_cases)
  have "optimal_gt (growthTime_cfg c) \<le> max_gt (growthTime_cfg c)"
    using assms(2) by (simp add: profile_ok_def)
  then have g: "min (of_int (round (optimal_gt (growthTime_cfg c)))) (max_gt (growthTime_cfg c))
              = optimal_gt (growthTime_cfg c)"
    by (simp add: n)
  obtain r where r: "simulateGrowth CROP_PARAMETERS p = Inr r"
    "isViable r" "yieldPercentage r = 100"
    "growthTime r = min (of_int (round (optimal_gt (growthTime_cfg c)))) (max_gt (growthTime_cfg c))"
    "issues r = []"
    "recommendations r = (if ph_ec_advisory p c then [PhEcAdvisory] else [])"
    using all_optimal_simulate [of CROP_PARAMETERS p c, OF assms(1,2,5,4)] by blast
  have "recommendations r = [] \<or> recommendations r = [PhEcAdvisory]"
    using r(6) by simp
  with r(1-3,5,6) r(4) [unfolded g] show ?thesis by blast
qed

theorem all_optimal_result_witness:
  "sampleRegistry (cropType defaultParameters) = Some sampleProfile
   \<and> profile_ok sampleProfile
   \<and> optimal_gt (growthTime_cfg sampleProfile) \<in> \<int>
   \<and> is_double (optimal_gt (growthTime_cfg sampleProfile))
   \<and> all_optimal defaultParameters sampleProfile
   \<and> (\<exists>r. simulateGrowth sampleRegistry defaultParameters = Inr r
          \<and> isViable r \<and> yieldPercentage r = 100 \<and> growthTime r = 30
          \<and> issues r = [] \<and> recommendations r = [])"
proof -
  have o: "optimal_gt (growthTime_cfg sampleProfile) = 30"
    by (simp add: sampleProfile_def)
  have i: "optimal_gt (growthTime_cfg sampleProfile) \<in> \<int>"
    by (simp add: o)
  have d: "is_double (optimal_gt (growthTime_cfg sampleProfile))"
    unfolding o by (rule is_double_numeral) simp
  obtain r where r: "simulateGrowth sampleRegistry defaultParameters = Inr r"
    "isViable r" "yieldPercentage r = 100"
    "growthTime r = optimal_gt (growthTime_cfg sampleProfile)" "issues r = []"
    "recommendations r = (if ph_ec_advisory defaultParameters sampleProfile
                          then [PhEcAdvisory] else [])"
    using all_optimal_result [of sampleRegistry defaultParameters sampleProfile,
        OF sample_lookup sampleProfile_ok i d default_all_optimal]
    by blast
  have "recommendations r = []"
    using r(6) sample_advisory_default by simp
  with r o have "\<exists>r. simulateGrowth sampleRegistry defaultParameters = Inr r
          \<and> isViable r \<and> yieldPercentage r = 100 \<and> growthTime r = 30
          \<and> issues r = [] \<and> recommendations r = []"
    by auto
  with sample_lookup sampleProfile_ok i d default_all_optimal show ?thesis by blast
qed

text \<open>C2 as stated fails in two ways. On the sample profile, whose optimal intervals are
  \<open>[5.5, 6.5]\<close> for the pH and \<open>[1, 3]\<close> for the EC, the readings with pH \<open>5.5\<close> and EC \<open>1\<close> are
  all optimal, and the recommendations hold the combined advisory. On the same profile
  with an optimal growth time of \<open>28.5\<close> days, the default readings are all optimal and the
  growth time is \<open>29\<close>, not \<open>28.5\<close>.\<close>

theorem all_optimal_counterexample:
  "sampleRegistry (cropType lowEndParameters) = Some sampleProfile
   \<and> profile_ok sampleProfile
   \<and> all_optimal lowEndParameters sampleProfile
   \<and> map_sum id recommendations (simulateGrowth sampleRegistry lowEndParameters)
       = Inr [PhEcAdvisory]
   \<and> fractionalOptimalRegistry (cropType defaultParameters) = Some fractionalOptimalProfile
   \<and> profile_ok fractionalOptimalProfile
   \<and> all_optimal defaultParameters fractionalOptimalProfile
   \<and> optimal_gt (growthTime_cfg fractionalOptimalProfile) = 57 / 2
   \<and> map_sum id growthTime (simulateGrowth fractionalOptimalRegistry defaultParameters)
       = Inr 29"
proof -
  have l: "sampleRegistry (cropType lowEndParameters) = Some sampleProfile"
    by (simp add: sampleRegistry_def lowEndParameters_def defaultParameters_def)
  have a: "all_optimal lowEndParameters sampleProfile"
    by (simp add: all_optimal_def sampleProfile_def parameterKeys_def lowEndParameters_def
          defaultParameters_def)
  have d: "is_double (optimal_gt (growthTime_cfg sampleProfile))"
    using is_double_numeral [of "num.Bit0 (num.Bit1 (num.Bit1 (num.Bit1 num.One)))"]
    by (simp add: sampleProfile_def)
  obtain r where "simulateGrowth sampleRegistry lowEndParameters = Inr r"
    and "recommendations r = (if ph_ec_advisory lowEndParameters sampleProfile then [PhEcAdvisory] else [])"
    using all_optimal_simulate [of sampleRegistry lowEndParameters sampleProfile,
        OF l sampleProfile_ok a d]
    by blast
  then have one: "map_sum id recommendations (simulateGrowth sampleRegistry lowEndParameters)
       = Inr [PhEcAdvisory]"
    using sample_advisory_lowEnd by simp
  have l2: "fractionalOptimalRegistry (cropType defaultParameters) = Some fractionalOptimalProfile"
    by (simp add: fractionalOptimalRegistry_def defaultParameters_def)
  have ok2: "profile_ok fractionalOptimalProfile"
    by (simp add: profile_ok_def fractionalOptimalProfile_def sampleProfile_def
          parameterKeys_def range_ok_def)
  have a2: "all_optimal defaultParameters fractionalOptimalProfile"
    by (simp add: all_optimal_def fractionalOptimalProfile_def sampleProfile_def
          parameterKeys_def defaultParameters_def)
  have o2: "optimal_gt (growthTime_cfg fractionalOptimalProfile) = 57 / 2"
    and m2: "max_gt (growthTime_cfg fractionalOptimalProfile) = 45"
    by (simp_all add: fractionalOptimalProfile_def)
  have d2: "is_double (optimal_gt (growthTime_cfg fractionalOptimalProfile))"
    unfolding o2 using is_double_dyadic [of 57 1] by simp
  obtain r2 where "simulateGrowth fractionalOptimalRegistry defaultParameters = Inr r2"
    and "growthTime r2 = min (of_int (round (optimal_gt (growthTime_cfg fractionalOptimalProfile))))
                            (max_gt (growthTime_cfg fractionalOptimalProfile))"
    using all_optimal_simulate [of fractionalOptimalRegistry defaultParameters
        fractionalOptimalProfile, OF l2 ok2 a2 d2]
    by blast
  then have two: "map_sum id growthTime (simulateGrowth fractionalOptimalRegistry defaultParameters)
       = Inr 29"
    unfolding o2 m2 by (simp add: round_samples)
  show ?thesis
    using l sampleProfile_ok a one l2 ok2 a2 o2 two by blast
qed

subsection \<open>C3: the floor of the factor and the rounded percentage\<close>

text \<open>
  C3 (the code at the failing input). On the sample profile, with the pH at its critical
  minimum and every other reading optimal, the plant is viable and the factor of the pH is
  \<open>0.01 powr 2.2\<close>, which is positive, and the \<open>yieldPercentage\<close> is nevertheless \<open>0\<close>: the
  rounding to a whole percentage removes what the floor of \<open>0.01\<close> kept.
\<close>

theorem single_parameter_zero_yield:
  "impact_of Ph (limits_of (optimal sampleProfile) Ph) (param boundaryParameters Ph)
     = Some ((1 / 100) powr (22 / 10))
   \<and> 0 < (1 / 100 :: real) powr (22 / 10)
   \<and> list_all (\<lambda>k. impact_of k (limits_of (optimal sampleProfile) k) (param boundaryParameters k) = Some 1)
        [Ec, AirTemperature, SolutionTemperature, LightIntensity, Co2Level, Humidity,
         WaterLevel, OxygenLevel]
   \<and> fst (checkViability boundaryParameters sampleProfile []) = True
   \<and> map_option fst (calculateYield boundaryParameters sampleProfile []) = Some 0"
proof -
  have ph: "impact_of Ph (limits_of (optimal sampleProfile) Ph) (param boundaryParameters Ph)
     = Some ((1 / 100) powr (22 / 10))"
    by (simp add: impact_of_def sampleProfile_def boundaryParameters_def defaultParameters_def
          computeLinearNormalized_def cmin_of_def cmax_of_def js_div_def clamp_def)
  have small: "(1 / 100 :: real) powr (22 / 10) \<le> 1 / 1000"
    using floor_powr_small [of "12 / 10"] by simp
  have others: "list_all (\<lambda>k. impact_of k (limits_of (optimal sampleProfile) k) (param boundaryParameters k) = Some 1)
        [Ec, AirTemperature, SolutionTemperature, LightIntensity, Co2Level, Humidity,
         WaterLevel, OxygenLevel]"
    by (simp add: impact_of_def sampleProfile_def boundaryParameters_def defaultParameters_def)
  have "\<not> (\<exists>k. critical_violation boundaryParameters sampleProfile k)"
  proof
    assume "\<exists>k. critical_violation boundaryParameters sampleProfile k"
    then obtain k where "critical_violation boundaryParameters sampleProfile k" ..
    then show False
      by (cases k)
        (simp_all add: critical_violation_def sampleProfile_def boundaryParameters_def
          defaultParameters_def cmin_of_def cmax_of_def)
  qed
  then have viable: "fst (checkViability boundaryParameters sampleProfile []) = True"
    by (simp add: checkViability_closed)
  have "\<exists>iss'. calculateYield boundaryParameters sampleProfile [] = Some (0, iss')"
    using ph small by (rule small_impact_zero_yield)
  then have zero: "map_option fst (calculateYield boundaryParameters sampleProfile []) = Some 0"
    by auto
  show ?thesis
    using ph others viable zero by simp
qed

subsection \<open>C4: the viability checker\<close>

text \<open>
  C4. The viability checker returns false exactly when some reading lies strictly outside its
  effective critical interval: from the critical minimum when the profile declares one and
  from the optimal minimum otherwise, to the critical maximum when the profile declares one
  and the optimal maximum otherwise. It appends one issue for each violating key, in the
  order of the keys, after the issues it was given; the issue holds the key, the reading
  and the two effective bounds. A reading equal to an effective critical bound does not
  violate: the check is viable exactly when every reading \<open>v\<close> satisfies \<open>lo \<le> v \<le> hi\<close>. The
  loop runs over all nine keys, each once, whatever the earlier keys gave.
\<close>

theorem checkViability_characterisation:
  fixes p c
  defines "lo \<equiv> \<lambda>k. (case criticalMin (limits_of (optimal c) k) of
                        None \<Rightarrow> min_r (limits_of (optimal c) k) | Some m \<Rightarrow> m)"
    and "hi \<equiv> \<lambda>k. (case criticalMax (limits_of (optimal c) k) of
                        None \<Rightarrow> max_r (limits_of (optimal c) k) | Some m \<Rightarrow> m)"
  shows "checkViability p c iss =
     (\<not> (\<exists>k. param p k < lo k \<or> param p k > hi k),
      iss @ map (\<lambda>k. CriticalIssue k (param p k) (lo k) (hi k))
              (filter (\<lambda>k. param p k < lo k \<or> param p k > hi k) parameterKeys))
   \<and> fst (checkViability p c iss) = (\<forall>k. lo k \<le> param p k \<and> param p k \<le> hi k)
   \<and> set parameterKeys = UNIV \<and> distinct parameterKeys \<and> length parameterKeys = 9"
proof -
  have lo: "lo = (\<lambda>k. cmin_of (limits_of (optimal c) k))"
    and hi: "hi = (\<lambda>k. cmax_of (limits_of (optimal c) k))"
    by (simp_all add: lo_def hi_def cmin_of_def cmax_of_def)
  have v: "critical_violation p c = (\<lambda>k. param p k < lo k \<or> param p k > hi k)"
    and i: "critical_issue p c = (\<lambda>k. CriticalIssue k (param p k) (lo k) (hi k))"
    by (simp_all add: fun_eq_iff critical_violation_def critical_issue_def lo hi)
  have 1: "checkViability p c iss =
     (\<not> (\<exists>k. param p k < lo k \<or> param p k > hi k),
      iss @ map (\<lambda>k. CriticalIssue k (param p k) (lo k) (hi k))
              (filter (\<lambda>k. param p k < lo k \<or> param p k > hi k) parameterKeys))"
    using checkViability_closed [of p c iss] unfolding v i by simp
  have 2: "(\<not> (\<exists>k. param p k < lo k \<or> param p k > hi k)) =
       (\<forall>k. lo k \<le> param p k \<and> param p k \<le> hi k)"
    by (auto simp: not_less)
  have 3: "length parameterKeys = 9" by (simp add: parameterKeys_def)
  have 4: "fst (checkViability p c iss) = (\<forall>k. lo k \<le> param p k \<and> param p k \<le> hi k)"
    unfolding 1 using 2 by simp
  show ?thesis
    using 1 4 3 keys_UNIV keys_distinct by blast
qed

theorem checkViability_characterisation_witness:
  "checkViability boundaryParameters sampleProfile [] = (True, [])
   \<and> checkViability nonViableParameters sampleProfile []
       = (False, [CriticalIssue Ph (35 / 10) 4 8])
   \<and> checkViability overfilledParameters sampleProfile []
       = (False, [CriticalIssue WaterLevel 101 40 100])
   \<and> checkViability dryParameters noCriticalProfile []
       = (False, [CriticalIssue Humidity 49 50 70])
   \<and> checkViability humidParameters noCriticalProfile [] = (True, [])"
proof -
  have 1: "checkViability boundaryParameters sampleProfile [] = (True, [])"
    using checkViability_characterisation [of boundaryParameters sampleProfile "[]", THEN conjunct1]
    by (simp add: ex_keys sampleProfile_def defaultParameters_def parameterKeys_def
          boundaryParameters_def)
  have 2: "checkViability nonViableParameters sampleProfile []
       = (False, [CriticalIssue Ph (35 / 10) 4 8])"
    using checkViability_characterisation [of nonViableParameters sampleProfile "[]", THEN conjunct1]
    by (simp add: ex_keys sampleProfile_def defaultParameters_def parameterKeys_def
          nonViableParameters_def)
  have 3: "checkViability overfilledParameters sampleProfile []
       = (False, [CriticalIssue WaterLevel 101 40 100])"
    using checkViability_characterisation [of overfilledParameters sampleProfile "[]", THEN conjunct1]
    by (simp add: ex_keys sampleProfile_def defaultParameters_def parameterKeys_def
          overfilledParameters_def)
  have 4: "checkViability dryParameters noCriticalProfile []
       = (False, [CriticalIssue Humidity 49 50 70])"
    using checkViability_characterisation [of dryParameters noCriticalProfile "[]", THEN conjunct1]
    by (simp add: ex_keys sampleProfile_def defaultParameters_def parameterKeys_def
          dryParameters_def noCriticalProfile_def)
  have 5: "checkViability humidParameters noCriticalProfile [] = (True, [])"
    using checkViability_characterisation [of humidParameters noCriticalProfile "[]", THEN conjunct1]
    by (simp add: ex_keys sampleProfile_def defaultParameters_def parameterKeys_def
          humidParameters_def noCriticalProfile_def)
  show ?thesis
    using 1 2 3 4 5 by blast
qed

subsection \<open>C5: the interaction penalty\<close>

text \<open>
  C5. After the loop over the nine keys, \<open>yieldMultiplier\<close> is the product of the nine
  per-key factors, and \<open>deviations\<close> holds \<open>\<bar>1 - impact\<bar>\<close> for every key (which is \<open>0\<close> for a key in
  its optimal interval, whose factor is \<open>1\<close>). The interaction step multiplies by \<open>0.9\<close> if and
  only if the deviation of EC is above \<open>0.2\<close> and that of pH above \<open>0.15\<close>; it multiplies by
  nothing else, and the yield evaluator returns the rounded percentage of the multiplier
  after this step, with the issues of the loop.
\<close>

theorem interaction_penalty_iff:
  "\<exists>imp st.
     (\<forall>k. impact_of k (limits_of (optimal c) k) (param p k) = Some (imp k))
     \<and> yield_loop p c iss = Some st
     \<and> fst st = prod_list (map imp parameterKeys)
     \<and> fst (snd st) = (\<lambda>k. Some \<bar>1 - imp k\<bar>)
     \<and> interaction_penalty st =
         (if \<bar>1 - imp Ec\<bar> > 2 / 10 \<and> \<bar>1 - imp Ph\<bar> > 15 / 100
          then prod_list (map imp parameterKeys) * (9 / 10)
          else prod_list (map imp parameterKeys))
     \<and> (interaction_penalty st = fst st * (9 / 10)
          \<longleftrightarrow> \<bar>1 - imp Ec\<bar> > 2 / 10 \<and> \<bar>1 - imp Ph\<bar> > 15 / 100)
     \<and> (interaction_penalty st = fst st
          \<longleftrightarrow> \<not> (\<bar>1 - imp Ec\<bar> > 2 / 10 \<and> \<bar>1 - imp Ph\<bar> > 15 / 100))
     \<and> calculateYield p c iss
         = Some (max 0 (round (interaction_penalty st * 100)), snd (snd st))"
proof -
  obtain imp where imp:
    "\<forall>k. impact_of k (limits_of (optimal c) k) (param p k) = Some (imp k)
         \<and> (1 / 100) powr (1 + PARAM_WEIGHTS k) \<le> imp k \<and> 0 < imp k \<and> imp k \<le> 1"
    using impact_fun [of c p] by blast
  then have imp1: "\<forall>k. impact_of k (limits_of (optimal c) k) (param p k) = Some (imp k)"
    by simp
  define P where "P = prod_list (map imp parameterKeys)"
  define st where "st = (P, (\<lambda>k. Some \<bar>1 - imp k\<bar>), iss @ concat (map (yield_issue p c imp) parameterKeys))"
  have loop: "yield_loop p c iss = Some st"
    unfolding st_def P_def by (rule yield_loop_closed [OF imp1])
  have "\<forall>x\<in>set (map imp parameterKeys). 0 < x \<and> x \<le> 1"
    using imp by simp
  then have pos: "0 < P"
    unfolding P_def using prod_list_unit_interval by blast
  have pen: "interaction_penalty st =
      P * (if \<bar>1 - imp Ec\<bar> > 2 / 10 \<and> \<bar>1 - imp Ph\<bar> > 15 / 100 then 9 / 10 else 1)"
    unfolding st_def by (rule interaction_penalty_closed)
  have fst_st: "fst st = P" and dev_st: "fst (snd st) = (\<lambda>k. Some \<bar>1 - imp k\<bar>)"
    by (simp_all add: st_def)
  have a: "interaction_penalty st =
         (if \<bar>1 - imp Ec\<bar> > 2 / 10 \<and> \<bar>1 - imp Ph\<bar> > 15 / 100 then P * (9 / 10) else P)"
    using pen by simp
  have b: "interaction_penalty st = fst st * (9 / 10)
          \<longleftrightarrow> \<bar>1 - imp Ec\<bar> > 2 / 10 \<and> \<bar>1 - imp Ph\<bar> > 15 / 100"
    using pos by (simp add: a fst_st)
  have c: "interaction_penalty st = fst st
          \<longleftrightarrow> \<not> (\<bar>1 - imp Ec\<bar> > 2 / 10 \<and> \<bar>1 - imp Ph\<bar> > 15 / 100)"
    using pos by (simp add: a fst_st)
  have d: "calculateYield p c iss
         = Some (max 0 (round (interaction_penalty st * 100)), snd (snd st))"
    by (simp only: calculateYield_def loop option.case Let_def)
  show ?thesis
    apply (rule exI [of _ imp])
    apply (rule exI [of _ st])
    using imp1 loop fst_st dev_st a b c d unfolding P_def by blast
qed

theorem interaction_penalty_iff_witness:
  "(\<exists>st. yield_loop bothLowParameters sampleProfile [] = Some st
        \<and> interaction_penalty st = fst st * (9 / 10))
   \<and> (\<exists>st. yield_loop defaultParameters sampleProfile [] = Some st
        \<and> interaction_penalty st = fst st)
   \<and> map_option fst (calculateYield bothDeviateParameters sampleProfile []) = Some 17
   \<and> map_option fst (calculateYield ecDeviatesParameters sampleProfile []) = Some 59"
proof -
  have ph: "impact_of Ph (limits_of (optimal sampleProfile) Ph) (param bothLowParameters Ph)
     = Some ((1 / 100) powr (22 / 10))"
    by (simp add: impact_of_def sampleProfile_def bothLowParameters_def defaultParameters_def
          computeLinearNormalized_def cmin_of_def cmax_of_def js_div_def clamp_def)
  have ec: "impact_of Ec (limits_of (optimal sampleProfile) Ec) (param bothLowParameters Ec)
     = Some ((1 / 100) powr (25 / 10))"
    by (simp add: impact_of_def sampleProfile_def bothLowParameters_def defaultParameters_def
          computeLinearNormalized_def cmin_of_def cmax_of_def js_div_def clamp_def)
  have sph: "(1 / 100 :: real) powr (22 / 10) \<le> 1 / 1000"
    using floor_powr_small [of "12 / 10"] by simp
  have sec: "(1 / 100 :: real) powr (25 / 10) \<le> 1 / 1000"
    using floor_powr_small [of "15 / 10"] by simp
  obtain imp st where
    imp: "\<forall>k. impact_of k (limits_of (optimal sampleProfile) k) (param bothLowParameters k) = Some (imp k)"
    and st: "yield_loop bothLowParameters sampleProfile [] = Some st"
    and iff: "interaction_penalty st = fst st * (9 / 10)
          \<longleftrightarrow> \<bar>1 - imp Ec\<bar> > 2 / 10 \<and> \<bar>1 - imp Ph\<bar> > 15 / 100"
    using interaction_penalty_iff [of sampleProfile bothLowParameters "[]"] by blast
  have "imp Ph = (1 / 100) powr (22 / 10)"
    using imp [rule_format, of Ph] unfolding ph by simp
  moreover have "imp Ec = (1 / 100) powr (25 / 10)"
    using imp [rule_format, of Ec] unfolding ec by simp
  ultimately have "\<bar>1 - imp Ec\<bar> > 2 / 10 \<and> \<bar>1 - imp Ph\<bar> > 15 / 100"
    using sph sec by simp
  then have one: "interaction_penalty st = fst st * (9 / 10)"
    using iff by simp
  obtain imp' st' where
    imp': "\<forall>k. impact_of k (limits_of (optimal sampleProfile) k) (param defaultParameters k) = Some (imp' k)"
    and st': "yield_loop defaultParameters sampleProfile [] = Some st'"
    and iff': "interaction_penalty st' = fst st'
          \<longleftrightarrow> \<not> (\<bar>1 - imp' Ec\<bar> > 2 / 10 \<and> \<bar>1 - imp' Ph\<bar> > 15 / 100)"
    using interaction_penalty_iff [of sampleProfile defaultParameters "[]"] by blast
  have e1: "impact_of Ec (limits_of (optimal sampleProfile) Ec) (param defaultParameters Ec) = Some 1"
    by (simp add: impact_of_def sampleProfile_def defaultParameters_def)
  have "imp' Ec = 1"
    using imp' [rule_format, of Ec] unfolding e1 by simp
  then have two: "interaction_penalty st' = fst st'"
    using iff' by simp
  obtain i3 s3 where
    i3: "\<forall>k. impact_of k (limits_of (optimal sampleProfile) k) (param bothDeviateParameters k) = Some (i3 k)"
    and p3: "interaction_penalty s3 =
         (if \<bar>1 - i3 Ec\<bar> > 2 / 10 \<and> \<bar>1 - i3 Ph\<bar> > 15 / 100
          then prod_list (map i3 parameterKeys) * (9 / 10)
          else prod_list (map i3 parameterKeys))"
    and y3: "calculateYield bothDeviateParameters sampleProfile []
         = Some (max 0 (round (interaction_penalty s3 * 100)), snd (snd s3))"
    using interaction_penalty_iff [of sampleProfile bothDeviateParameters "[]"] by blast
  have v3: "i3 k = (if k = Ph then 31381059609 / 100000000000
             else if k = Ec then 59049 / 100000 else 1)" for k
    using i3 [rule_format, of k] unfolding sample_impacts by simp
  have e3: "interaction_penalty s3 * 100 = 16677181699666569 / 1000000000000000"
    unfolding p3 by (simp add: v3 parameterKeys_def)
  have three: "map_option fst (calculateYield bothDeviateParameters sampleProfile []) = Some 17"
    unfolding y3 e3 by (simp add: sample_rounds)
  obtain i4 s4 where
    i4: "\<forall>k. impact_of k (limits_of (optimal sampleProfile) k) (param ecDeviatesParameters k) = Some (i4 k)"
    and p4: "interaction_penalty s4 =
         (if \<bar>1 - i4 Ec\<bar> > 2 / 10 \<and> \<bar>1 - i4 Ph\<bar> > 15 / 100
          then prod_list (map i4 parameterKeys) * (9 / 10)
          else prod_list (map i4 parameterKeys))"
    and y4: "calculateYield ecDeviatesParameters sampleProfile []
         = Some (max 0 (round (interaction_penalty s4 * 100)), snd (snd s4))"
    using interaction_penalty_iff [of sampleProfile ecDeviatesParameters "[]"] by blast
  have v4: "i4 k = (if k = Ec then 59049 / 100000 else 1)" for k
    using i4 [rule_format, of k] unfolding sample_impacts by simp
  have e4: "interaction_penalty s4 * 100 = 59049 / 1000"
    unfolding p4 by (simp add: v4 parameterKeys_def)
  have four: "map_option fst (calculateYield ecDeviatesParameters sampleProfile []) = Some 59"
    unfolding y4 e4 by (simp add: sample_rounds)
  show ?thesis
    using st one st' two three four by blast
qed

subsection \<open>C6: the growth time\<close>

text \<open>
  C6 (as amended). For a profile whose optimal growth time is at least \<open>1\<close> and at most its
  maximal growth time, and whose maximal growth time is a whole number, the estimator
  returns \<open>min (round z) max\<close>, where \<open>z\<close> is the double product of the optimal growth time
  and the multiplier \<open>m\<close> that the code accumulates: from \<open>1\<close>, one double multiplication by
  \<open>1.5\<close>, by \<open>1.3\<close> and by \<open>1.2\<close> for an air temperature, a light intensity and a CO2 level
  strictly below the optimal minimum, and none for a value above an optimal maximum. The
  multiplier differs from the exact product of these factors by at most that product over
  \<open>2 ^ 52\<close>, and \<open>z\<close> from the exact product of the optimal growth time and the factors by at
  most that product over \<open>2 ^ 50\<close>. The result is a whole number between \<open>1\<close> and the maximal
  growth time.
\<close>

theorem calculateGrowthTime_spec:
  assumes "1 \<le> optimal_gt (growthTime_cfg c)"
    and "optimal_gt (growthTime_cfg c) \<le> max_gt (growthTime_cfg c)"
    and "max_gt (growthTime_cfg c) \<in> \<int>"
  shows "calculateGrowthTime p c =
           min (of_int (round (fmul (optimal_gt (growthTime_cfg c)) (growth_multiplier p c))))
               (max_gt (growthTime_cfg c))
         \<and> \<bar>growth_multiplier p c - exact_multiplier p c\<bar> \<le> exact_multiplier p c / 2 ^ 52
         \<and> \<bar>fmul (optimal_gt (growthTime_cfg c)) (growth_multiplier p c)
              - optimal_gt (growthTime_cfg c) * exact_multiplier p c\<bar>
             \<le> optimal_gt (growthTime_cfg c) * exact_multiplier p c / 2 ^ 50
         \<and> calculateGrowthTime p c \<in> \<int>
         \<and> 1 \<le> calculateGrowthTime p c
         \<and> calculateGrowthTime p c \<le> max_gt (growthTime_cfg c)"
proof -
  define opt where "opt = optimal_gt (growthTime_cfg c)"
  define mx where "mx = max_gt (growthTime_cfg c)"
  define m where "m = growth_multiplier p c"
  define x where "x = exact_multiplier p c"
  have eq: "calculateGrowthTime p c = min (of_int (round (fmul opt m))) mx"
    unfolding opt_def mx_def m_def by (rule calculateGrowthTime_closed)
  have m: "1 \<le> m" unfolding m_def by (rule growth_multiplier_ge_1)
  have x: "1 \<le> x" unfolding x_def by (rule exact_multiplier_ge_1)
  have close: "\<bar>m - x\<bar> \<le> x / 2 ^ 52"
    unfolding m_def x_def by (rule growth_multiplier_close)
  have opt: "1 \<le> opt" "opt \<le> mx" and mx: "mx \<in> \<int>"
    using assms by (simp_all add: opt_def mx_def)
  have z: "\<bar>fmul opt m - opt * x\<bar> \<le> opt * x / 2 ^ 50"
    using opt(1) x close by (intro fmul_close) simp_all
  have "1 \<le> fmul opt m"
    using opt(1) m by (rule fmul_ge_1)
  then have "round (1 :: real) \<le> round (fmul opt m)"
    by (rule round_mono)
  then have r: "1 \<le> round (fmul opt m)" by simp
  have int: "min (of_int (round (fmul opt m))) mx \<in> \<int>"
    using mx by (simp add: min_def)
  have lo: "1 \<le> min (of_int (round (fmul opt m))) mx"
    using r opt by simp
  show ?thesis
    using eq close z int lo unfolding opt_def mx_def m_def x_def by simp
qed

theorem calculateGrowthTime_spec_witness:
  "1 \<le> optimal_gt (growthTime_cfg sampleProfile)
   \<and> optimal_gt (growthTime_cfg sampleProfile) \<le> max_gt (growthTime_cfg sampleProfile)
   \<and> max_gt (growthTime_cfg sampleProfile) \<in> \<int>
   \<and> calculateGrowthTime coldParameters sampleProfile = 45
   \<and> calculateGrowthTime defaultParameters sampleProfile = 30"
proof -
  have a: "1 \<le> optimal_gt (growthTime_cfg sampleProfile)"
    and b: "optimal_gt (growthTime_cfg sampleProfile) \<le> max_gt (growthTime_cfg sampleProfile)"
    and c: "max_gt (growthTime_cfg sampleProfile) \<in> \<int>"
    by (simp_all add: sampleProfile_def)
  have gc: "growth_multiplier coldParameters sampleProfile = 3 / 2"
    by (simp add: growth_multiplier_def coldParameters_def defaultParameters_def sampleProfile_def
          fmul_multipliers)
  have gd: "growth_multiplier defaultParameters sampleProfile = 1"
    by (simp add: growth_multiplier_def defaultParameters_def sampleProfile_def)
  have o: "optimal_gt (growthTime_cfg sampleProfile) = 30"
    and m: "max_gt (growthTime_cfg sampleProfile) = 45"
    by (simp_all add: sampleProfile_def)
  have p1: "fmul 30 (3 / 2) = 45"
    by (simp add: fmul_def fl_small_values fl_3_2)
  have p2: "fmul 30 1 = 30"
    by (simp add: fmul_def fl_small_values fl_1)
  have "calculateGrowthTime coldParameters sampleProfile =
          min (of_int (round (fmul (optimal_gt (growthTime_cfg sampleProfile))
                 (growth_multiplier coldParameters sampleProfile))))
              (max_gt (growthTime_cfg sampleProfile))"
    using calculateGrowthTime_spec [OF a b c, of coldParameters] by (rule conjunct1)
  then have cold: "calculateGrowthTime coldParameters sampleProfile = 45"
    unfolding gc o m p1 by simp
  have "calculateGrowthTime defaultParameters sampleProfile =
          min (of_int (round (fmul (optimal_gt (growthTime_cfg sampleProfile))
                 (growth_multiplier defaultParameters sampleProfile))))
              (max_gt (growthTime_cfg sampleProfile))"
    using calculateGrowthTime_spec [OF a b c, of defaultParameters] by (rule conjunct1)
  then have dflt: "calculateGrowthTime defaultParameters sampleProfile = 30"
    unfolding gd o m p2 by simp
  show ?thesis
    using a b c cold dflt by blast
qed

text \<open>C6 as stated fails in two ways. With an optimal growth time of \<open>30\<close> days, a maximal one
  of \<open>40.5\<close> and a cold air, the estimator returns \<open>min 45 40.5 = 40.5\<close>, which is not a whole
  number. With an optimal growth time of \<open>7.5\<close> days, a maximal one of \<open>45\<close>, a cold air and a
  low CO2 level, the multiplier is the double \<open>1.7999999999999998\<close>, the product the double
  \<open>13.499999999999998\<close>, and the estimator returns \<open>13\<close>, where the exact product \<open>7.5 * 1.5 * 1.2 =
  13.5\<close> rounds to \<open>14\<close>.\<close>

theorem calculateGrowthTime_counterexample:
  "1 \<le> optimal_gt (growthTime_cfg fractionalMaxProfile)
   \<and> optimal_gt (growthTime_cfg fractionalMaxProfile) \<le> max_gt (growthTime_cfg fractionalMaxProfile)
   \<and> calculateGrowthTime coldParameters fractionalMaxProfile = 81 / 2
   \<and> calculateGrowthTime coldParameters fractionalMaxProfile \<notin> \<int>
   \<and> 1 \<le> optimal_gt (growthTime_cfg shortCycleProfile)
   \<and> optimal_gt (growthTime_cfg shortCycleProfile) \<le> max_gt (growthTime_cfg shortCycleProfile)
   \<and> max_gt (growthTime_cfg shortCycleProfile) \<in> \<int>
   \<and> calculateGrowthTime coldLowCo2Parameters shortCycleProfile = 13
   \<and> min (of_int (round (optimal_gt (growthTime_cfg shortCycleProfile)
              * exact_multiplier coldLowCo2Parameters shortCycleProfile)))
          (max_gt (growthTime_cfg shortCycleProfile)) = 14"
proof -
  have g1: "growth_multiplier coldParameters fractionalMaxProfile = 3 / 2"
    by (simp add: growth_multiplier_def coldParameters_def defaultParameters_def
          fractionalMaxProfile_def sampleProfile_def fmul_multipliers)
  have p1: "fmul 30 (3 / 2) = 45"
    by (simp add: fmul_def fl_small_values fl_3_2)
  have v: "calculateGrowthTime coldParameters fractionalMaxProfile = 81 / 2"
    unfolding calculateGrowthTime_closed g1
    by (simp add: fractionalMaxProfile_def p1)
  have n: "calculateGrowthTime coldParameters fractionalMaxProfile \<notin> \<int>"
    unfolding v by (rule half_not_int)
  have a: "1 \<le> optimal_gt (growthTime_cfg fractionalMaxProfile)"
    and b: "optimal_gt (growthTime_cfg fractionalMaxProfile) \<le> max_gt (growthTime_cfg fractionalMaxProfile)"
    by (simp_all add: fractionalMaxProfile_def)
  have a2: "1 \<le> optimal_gt (growthTime_cfg shortCycleProfile)"
    and b2: "optimal_gt (growthTime_cfg shortCycleProfile) \<le> max_gt (growthTime_cfg shortCycleProfile)"
    and c2: "max_gt (growthTime_cfg shortCycleProfile) \<in> \<int>"
    by (simp_all add: shortCycleProfile_def)
  have g2: "growth_multiplier coldLowCo2Parameters shortCycleProfile
              = 2026619832316723 / 1125899906842624"
    by (simp add: growth_multiplier_def coldLowCo2Parameters_def defaultParameters_def
          shortCycleProfile_def sampleProfile_def fmul_multipliers)
  have d: "fl (2026619832316723 / 1125899906842624) = 2026619832316723 / 1125899906842624"
    using fl_dyadic [of 2026619832316723 50] by simp
  have p2: "fmul (15 / 2) (2026619832316723 / 1125899906842624)
              = 7599824371187711 / 562949953421312"
    unfolding fmul_def d fl_small_values
    by (subst fl_eval [where e = 3]) (simp_all add: round_even_def)
  have v2: "calculateGrowthTime coldLowCo2Parameters shortCycleProfile = 13"
    unfolding calculateGrowthTime_closed g2
    by (simp add: shortCycleProfile_def p2 round_samples)
  have x2: "exact_multiplier coldLowCo2Parameters shortCycleProfile = 9 / 5"
    by (simp add: exact_multiplier_def coldLowCo2Parameters_def defaultParameters_def
          shortCycleProfile_def sampleProfile_def)
  have f2: "min (of_int (round (optimal_gt (growthTime_cfg shortCycleProfile)
              * exact_multiplier coldLowCo2Parameters shortCycleProfile)))
          (max_gt (growthTime_cfg shortCycleProfile)) = (14 :: real)"
    unfolding x2 by (simp add: shortCycleProfile_def round_samples)
  show ?thesis
    using a b v n a2 b2 c2 v2 f2 by blast
qed

subsection \<open>C7: monotonicity of the factor\<close>



subsection \<open>C8: totality\<close>

text \<open>
  C8. The linear normalisation always returns a real number. Below the optimum with a
  critical minimum that is not below the optimal minimum, and above the optimum with a
  critical maximum that is not above the optimal maximum, it returns \<open>0\<close>; the quotient, whose
  divisor may be zero there, is not formed. The whole yield computation returns a result for
  every input and every profile.
\<close>

theorem computeLinearNormalized_total:
  "(\<exists>l. computeLinearNormalized v mn mx cmin cmax = Some l)
   \<and> (v < mn \<and> cmin \<ge> mn \<longrightarrow> computeLinearNormalized v mn mx cmin cmax = Some 0)
   \<and> (\<not> v < mn \<and> v > mx \<and> cmax \<le> mx \<longrightarrow> computeLinearNormalized v mn mx cmin cmax = Some 0)
   \<and> (\<exists>pct iss'. calculateYield params config iss = Some (pct, iss'))"
proof -
  obtain imp where imp:
    "\<forall>k. impact_of k (limits_of (optimal config) k) (param params k) = Some (imp k)"
    using impact_fun [of config params] by blast
  have "\<exists>pct iss'. calculateYield params config iss = Some (pct, iss')"
    by (simp add: calculateYield_def yield_loop_closed [OF imp])
  moreover have "\<exists>l. computeLinearNormalized v mn mx cmin cmax = Some l"
    using cln_total by blast
  ultimately show ?thesis
    by (simp add: computeLinearNormalized_def)
qed

theorem computeLinearNormalized_total_witness:
  "((3::real) < 5 \<and> (5::real) \<ge> 5) \<and> computeLinearNormalized 3 5 6 5 6 = Some 0
   \<and> js_div (3 - 5) (5 - 5) = None
   \<and> (\<not> (7::real) < 5 \<and> (7::real) > 6 \<and> (6::real) \<le> 6) \<and> computeLinearNormalized 7 5 6 5 6 = Some 0
   \<and> js_div (6 - 7) (6 - 6) = None"
  using computeLinearNormalized_total [of 3 5 6 5 6] computeLinearNormalized_total [of 7 5 6 5 6]
  by (simp add: js_div_def)

subsection \<open>C9: an unknown crop identifier\<close>

text \<open>
  C9 (as the code has it). When the crop identifier is not a key of the table, the
  simulation returns no result: the first read of \<^verbatim>\<open>config.optimal\<close> in the viability
  checker raises the runtime's \<open>TypeError\<close>.
\<close>

theorem unknown_crop_TypeError:
  assumes "CROP_PARAMETERS (cropType p) = None"
  shows "simulateGrowth CROP_PARAMETERS p = Inl TypeError"
  using assms by (simp add: simulateGrowth_def)

theorem unknown_crop_TypeError_witness:
  "sampleRegistry (cropType unknownCropParameters) = None
   \<and> simulateGrowth sampleRegistry unknownCropParameters = Inl TypeError"
proof -
  have n: "sampleRegistry (cropType unknownCropParameters) = None"
    by (simp add: sampleRegistry_def unknownCropParameters_def defaultParameters_def)
  show ?thesis
    using n unknown_crop_TypeError [of sampleRegistry unknownCropParameters, OF n] by simp
qed

text \<open>C9 as stated fails: for the identifier \<open>tomato\<close>, which the sample table does not hold,
  the failure is not an \<open>UnknownCropError\<close>.\<close>

theorem unknown_crop_counterexample:
  "sampleRegistry (cropType unknownCropParameters) = None
   \<and> simulateGrowth sampleRegistry unknownCropParameters \<noteq> Inl UnknownCropError"
  by (simp add: simulateGrowth_def sampleRegistry_def unknownCropParameters_def
        defaultParameters_def)

subsection \<open>C10: no yield for a plant that is not viable\<close>

text \<open>
  C10. If the table holds a profile for the crop and the profile satisfies its invariants,
  the simulation returns a result, and when the result is not viable its
  \<open>yieldPercentage\<close>, \<open>expectedGrams\<close> and \<open>yieldPerSquareMeter\<close> are all \<open>0\<close>.
\<close>

theorem non_viable_zero_yield:
  assumes "CROP_PARAMETERS (cropType p) = Some c" and "profile_ok c"
  shows "\<exists>r. simulateGrowth CROP_PARAMETERS p = Inr r
           \<and> (\<not> isViable r \<longrightarrow>
                yieldPercentage r = 0 \<and> expectedGrams r = 0 \<and> yieldPerSquareMeter r = 0)"
proof -
  obtain pct iss2 where y: "calculateYield p c (snd (checkViability p c [])) = Some (pct, iss2)"
    using calculateYield_total by blast
  note sim = simulateGrowth_closed [of CROP_PARAMETERS p c pct iss2, OF assms(1) y]
  have "pct = 0" if "\<not> fst (checkViability p c [])"
  proof -
    from that obtain k where k: "critical_violation p c k"
      by (auto simp: checkViability_closed)
    have "range_ok (limits_of (optimal c) k)"
      using assms(2) by (rule profile_ok_range)
    then have "\<exists>iss'. calculateYield p c (snd (checkViability p c [])) = Some (0, iss')"
      using k by (rule violation_zero_yield)
    with y show ?thesis by simp
  qed
  then show ?thesis
    unfolding sim by (simp add: fdiv_0_left fmul_0_right fmul_0_left)
qed

theorem non_viable_zero_yield_witness:
  "sampleRegistry (cropType nonViableParameters) = Some sampleProfile
   \<and> profile_ok sampleProfile
   \<and> (\<exists>r. simulateGrowth sampleRegistry nonViableParameters = Inr r
          \<and> \<not> isViable r
          \<and> yieldPercentage r = 0 \<and> expectedGrams r = 0 \<and> yieldPerSquareMeter r = 0)"
proof -
  have l: "sampleRegistry (cropType nonViableParameters) = Some sampleProfile"
    by (simp add: sampleRegistry_def nonViableParameters_def defaultParameters_def)
  obtain r where r: "simulateGrowth sampleRegistry nonViableParameters = Inr r"
    and z: "\<not> isViable r \<longrightarrow>
              yieldPercentage r = 0 \<and> expectedGrams r = 0 \<and> yieldPerSquareMeter r = 0"
    using non_viable_zero_yield [of sampleRegistry nonViableParameters sampleProfile, OF l sampleProfile_ok]
    by blast
  obtain pct iss2 where
    y: "calculateYield nonViableParameters sampleProfile
          (snd (checkViability nonViableParameters sampleProfile [])) = Some (pct, iss2)"
    using calculateYield_total by blast
  have "critical_violation nonViableParameters sampleProfile Ph"
    by (simp add: critical_violation_def nonViableParameters_def defaultParameters_def
          sampleProfile_def cmin_of_def)
  then have "\<not> fst (checkViability nonViableParameters sampleProfile [])"
    unfolding checkViability_closed by auto
  then have "\<not> isViable r"
    using r unfolding simulateGrowth_closed [of sampleRegistry nonViableParameters sampleProfile pct iss2, OF l y] by auto
  with l sampleProfile_ok r z show ?thesis by blast
qed

end
